theory Spec2Isabelle
  imports
    Complex_Main
    "HOL-Library.Char_ord"
    "HOL-Library.List_Lexorder"
    "HOL-Library.Product_Lexorder"
    "HOL-Library.Multiset"
begin

section \<open>Resume-Analyser: the analysis pipeline as HOL functions\<close>

text \<open>
  The development follows the Python modules \<^verbatim>\<open>role_matcher.py\<close>, \<^verbatim>\<open>skill_extractor.py\<close>,
  \<^verbatim>\<open>ats_analyzer.py\<close>, \<^verbatim>\<open>jd_matcher.py\<close> and \<^verbatim>\<open>analysis_service.py\<close>.

  Conventions of the embedding.
  \<^item> A Python \<^verbatim>\<open>str\<close> is a \<^typ>\<open>string\<close>: the bytes of the text in UTF-8, so an ASCII
    character is one \<^typ>\<open>char\<close>. Literals of the source that are not ASCII are given by their
    UTF-8 bytes, which keeps the containment tests on them exact. \<open>len\<close> counts code points
    and \<open>strip\<close> removes the white space of Unicode, as \<^verbatim>\<open>len\<close> and \<^verbatim>\<open>str.strip\<close> do. Offsets,
    case folding and the character classes of regular expressions are those of ASCII: they
    see each byte of a character outside ASCII as one character that is neither a letter
    nor a space.
  \<^item> A Python \<^verbatim>\<open>float\<close> is a \<^typ>\<open>real\<close>, the exact value of the double. The ATS, role-matching
    and health scores are computed with exact arithmetic. The scores of the job-description
    match are computed in binary64: \<open>fl\<close> rounds the exact result of each operation to the
    nearest double, ties to even (overflow and subnormal numbers are out of reach of these
    scores and not modelled). \<^verbatim>\<open>round(x, 2)\<close> is \<open>round2\<close>: the exact value of \<open>x\<close> rounded to two
    decimals, ties to even; the double that Python returns is the one nearest to that
    decimal and is identified with it.
  \<^item> A Python \<^verbatim>\<open>set\<close> is a finite \<^typ>\<open>'a set\<close> built from a list; \<^verbatim>\<open>len\<close> of it is \<^const>\<open>card\<close>.
  \<^item> A Python \<^verbatim>\<open>dict\<close> whose iteration order matters is an association list in insertion
    order; a method named \<^verbatim>\<open>_f\<close> in the source is the constant \<open>f\<close> here.
  \<^item> The catalog (\<^verbatim>\<open>JOB_DATABASE\<close>) and the synonym table (\<^verbatim>\<open>SKILL_SYNONYMS\<close>) are parameters of
    the functions that read them; the synonym table of the repository is also given as a
    constant.
\<close>

subsection \<open>Strings\<close>

definition is_upper :: "char \<Rightarrow> bool" where
  "is_upper c = (let n = (of_char c :: nat) in 65 \<le> n \<and> n \<le> 90)"

definition lower_char :: "char \<Rightarrow> char" where
  "lower_char c = (if is_upper c then char_of ((of_char c :: nat) + 32) else c)"

text \<open>\<^verbatim>\<open>s.lower()\<close>\<close>

definition lower :: "string \<Rightarrow> string" where
  "lower s = map lower_char s"

text \<open>\<^verbatim>\<open>s.startswith(p)\<close>\<close>

fun starts_with :: "string \<Rightarrow> string \<Rightarrow> bool" where
  "starts_with s [] = True"
| "starts_with [] (p # ps) = False"
| "starts_with (c # cs) (p # ps) = (c = p \<and> starts_with cs ps)"

text \<open>\<^verbatim>\<open>sub in s\<close> for two strings: \<open>contains s sub\<close>.\<close>

fun contains :: "string \<Rightarrow> string \<Rightarrow> bool" where
  "contains [] sub = (sub = [])"
| "contains (c # cs) sub = (starts_with (c # cs) sub \<or> contains cs sub)"

text \<open>The white space of ASCII, for \<^verbatim>\<open>str.split\<close> and the regular expression \<^verbatim>\<open>\s\<close>.\<close>

definition is_space :: "char \<Rightarrow> bool" where
  "is_space c = (let n = (of_char c :: nat) in (9 \<le> n \<and> n \<le> 13) \<or> (28 \<le> n \<and> n \<le> 32))"

definition is_digit :: "char \<Rightarrow> bool" where
  "is_digit c = (let n = (of_char c :: nat) in 48 \<le> n \<and> n \<le> 57)"

definition is_alpha :: "char \<Rightarrow> bool" where
  "is_alpha c = (let n = (of_char c :: nat) in (65 \<le> n \<and> n \<le> 90) \<or> (97 \<le> n \<and> n \<le> 122))"

text \<open>The word characters of \<^verbatim>\<open>\w\<close> and \<^verbatim>\<open>\b\<close>.\<close>

definition word_char :: "char \<Rightarrow> bool" where
  "word_char c = (is_alpha c \<or> is_digit c \<or> c = CHR ''_'')"

text \<open>
  The white-space characters of Unicode (\<^verbatim>\<open>str.isspace\<close>), each by its UTF-8 bytes: U+0009 to
  U+000D, U+001C to U+0020, U+0085, U+00A0, U+1680, U+2000 to U+200A, U+2028, U+2029,
  U+202F, U+205F and U+3000.
\<close>

definition white_space :: "string list" where
  "white_space =
     [[CHR 0x09], [CHR 0x0A], [CHR 0x0B], [CHR 0x0C], [CHR 0x0D],
      [CHR 0x1C], [CHR 0x1D], [CHR 0x1E], [CHR 0x1F], [CHR 0x20],
      [CHR 0xC2, CHR 0x85], [CHR 0xC2, CHR 0xA0], [CHR 0xE1, CHR 0x9A, CHR 0x80],
      [CHR 0xE2, CHR 0x80, CHR 0x80], [CHR 0xE2, CHR 0x80, CHR 0x81],
      [CHR 0xE2, CHR 0x80, CHR 0x82], [CHR 0xE2, CHR 0x80, CHR 0x83],
      [CHR 0xE2, CHR 0x80, CHR 0x84], [CHR 0xE2, CHR 0x80, CHR 0x85],
      [CHR 0xE2, CHR 0x80, CHR 0x86], [CHR 0xE2, CHR 0x80, CHR 0x87],
      [CHR 0xE2, CHR 0x80, CHR 0x88], [CHR 0xE2, CHR 0x80, CHR 0x89],
      [CHR 0xE2, CHR 0x80, CHR 0x8A], [CHR 0xE2, CHR 0x80, CHR 0xA8],
      [CHR 0xE2, CHR 0x80, CHR 0xA9], [CHR 0xE2, CHR 0x80, CHR 0xAF],
      [CHR 0xE2, CHR 0x81, CHR 0x9F], [CHR 0xE3, CHR 0x80, CHR 0x80]]"

text \<open>Removing, from the front of \<open>s\<close>, every leading occurrence of one of the sequences \<open>ws\<close>.\<close>

function strip_left :: "string list \<Rightarrow> string \<Rightarrow> string" where
  "strip_left ws [] = []"
| "strip_left ws (c # cs) =
     (case find (\<lambda>w. w \<noteq> [] \<and> starts_with (c # cs) w) ws of
        None \<Rightarrow> c # cs
      | Some w \<Rightarrow> strip_left ws (drop (length w) (c # cs)))"
  by pat_completeness auto
termination
proof (relation "measure (\<lambda>(ws, s). length s)")
  show "wf (measure (\<lambda>(ws, s). length s))" by simp
next
  fix ws :: "string list" and c :: char and cs w :: string
  assume "find (\<lambda>w. w \<noteq> [] \<and> starts_with (c # cs) w) ws = Some w"
  then have w: "w \<noteq> []" by (auto simp: find_Some_iff)
  then have "length (drop (length w) (c # cs)) < length (c # cs)" by simp
  then show "((ws, drop (length w) (c # cs)), (ws, c # cs)) \<in> measure (\<lambda>(ws, s). length s)"
    by simp
qed

declare strip_left.simps [simp del]

text \<open>\<^verbatim>\<open>s.strip()\<close>: the white space of Unicode is removed at both ends. In UTF-8 the bytes of
  a character at the end of the text are the reversed sequence at the front of the
  reversed text.\<close>

definition strip :: "string \<Rightarrow> string" where
  "strip s = rev (strip_left (map rev white_space) (rev (strip_left white_space s)))"

text \<open>\<^verbatim>\<open>len(s)\<close>: the number of code points, that is of the bytes that are not continuation
  bytes (\<^verbatim>\<open>10xxxxxx\<close>).\<close>

definition len :: "string \<Rightarrow> nat" where
  "len s = length (filter (\<lambda>c. \<not> (let n = (of_char c :: nat) in 128 \<le> n \<and> n < 192)) s)"

text \<open>\<^verbatim>\<open>s.split()\<close>: the maximal runs of characters that are not white space.\<close>

fun split_acc :: "string \<Rightarrow> string \<Rightarrow> string list" where
  "split_acc [] cur = (if cur = [] then [] else [cur])"
| "split_acc (c # cs) cur =
     (if is_space c then (if cur = [] then split_acc cs [] else cur # split_acc cs [])
      else split_acc cs (cur @ [c]))"

definition split :: "string \<Rightarrow> string list" where
  "split s = split_acc s []"

text \<open>\<^verbatim>\<open>s[start:end]\<close> for \<open>0 \<le> start\<close> and \<open>0 \<le> end\<close>.\<close>

definition slice :: "string \<Rightarrow> nat \<Rightarrow> nat \<Rightarrow> string" where
  "slice s start end = drop start (take end s)"

subsection \<open>Regular expressions\<close>

text \<open>
  The fragment of Python's \<^verbatim>\<open>re\<close> that the modelled functions use. A quantifier stands on a
  character class only: \<open>Many lo hi c\<close> is \<^verbatim>\<open>c{lo,hi}\<close>, greedy, with \<open>hi = None\<close> for no upper
  bound, so \<^verbatim>\<open>c+\<close> is \<open>Many 1 None c\<close>, \<^verbatim>\<open>c*\<close> is \<open>Many 0 None c\<close> and \<^verbatim>\<open>c?\<close> is
  \<open>Many 0 (Some 1) c\<close>. \<open>LitI\<close> is a literal under \<^verbatim>\<open>re.IGNORECASE\<close>, \<open>Bnd\<close> is \<^verbatim>\<open>\b\<close> and \<open>Grp\<close> is
  the capturing group 1.
\<close>

datatype cls = In "char list" | NotIn "char list"

fun in_cls :: "cls \<Rightarrow> char \<Rightarrow> bool" where
  "in_cls (In cs) c = (c \<in> set cs)"
| "in_cls (NotIn cs) c = (c \<notin> set cs)"

datatype rx =
    Lit string
  | LitI string
  | Many nat "nat option" cls
  | Seq rx rx
  | Alt rx rx
  | Bnd
  | Grp rx

text \<open>\<^verbatim>\<open>\b\<close> holds at position \<open>i\<close> when exactly one of the characters before and after it is a
  word character.\<close>

definition at_boundary :: "string \<Rightarrow> nat \<Rightarrow> bool" where
  "at_boundary s i =
     ((0 < i \<and> i \<le> length s \<and> word_char (s ! (i - 1)))
        \<noteq> (i < length s \<and> word_char (s ! i)))"

text \<open>
  A matcher state is the position reached and the span of group 1, if it has been closed.
  \<open>run r s st\<close> lists the states in which a match of \<open>r\<close> begun in \<open>st\<close> can end, in the order
  in which a backtracking matcher tries them: the head of the list is the match Python
  reports.
\<close>

type_synonym rx_state = "nat \<times> (nat \<times> nat) option"

fun run :: "rx \<Rightarrow> string \<Rightarrow> rx_state \<Rightarrow> rx_state list" where
  "run (Lit l) s (i, g) =
     (if take (length l) (drop i s) = l then [(i + length l, g)] else [])"
| "run (LitI l) s (i, g) =
     (if lower (take (length l) (drop i s)) = lower l then [(i + length l, g)] else [])"
| "run (Many lo hi c) s (i, g) =
     (let w = length (takeWhile (in_cls c) (drop i s));
          m = (case hi of None \<Rightarrow> w | Some h \<Rightarrow> min h w)
      in map (\<lambda>k. (i + k, g)) (rev [lo ..< Suc m]))"
| "run (Seq a b) s st = concat (map (run b s) (run a s st))"
| "run (Alt a b) s st = run a s st @ run b s st"
| "run Bnd s (i, g) = (if at_boundary s i then [(i, g)] else [])"
| "run (Grp a) s (i, g) = map (\<lambda>(j, _). (j, Some (i, j))) (run a s (i, g))"

fun seqs :: "rx list \<Rightarrow> rx" where
  "seqs [] = Lit []"
| "seqs [r] = r"
| "seqs (r # rs) = Seq r (seqs rs)"

text \<open>\<^verbatim>\<open>re.search(r, s)\<close> as a truth value.\<close>

definition search :: "rx \<Rightarrow> string \<Rightarrow> bool" where
  "search r s = list_ex (\<lambda>i. run r s (i, None) \<noteq> []) [0 ..< Suc (length s)]"

text \<open>
  \<^verbatim>\<open>re.finditer(r, s)\<close>: the matches from left to right, without overlap, each with its start,
  its end and the span of group 1. After a match the scan goes on at its end (one character
  further after an empty match).
\<close>

function finditer_from :: "rx \<Rightarrow> string \<Rightarrow> nat \<Rightarrow> (nat \<times> nat \<times> (nat \<times> nat) option) list" where
  "finditer_from r s i =
     (if length s < i then []
      else case run r s (i, None) of
             [] \<Rightarrow> finditer_from r s (Suc i)
           | (j, g) # _ \<Rightarrow> (i, j, g) # finditer_from r s (max j (Suc i)))"
  by pat_completeness auto
termination
  by (relation "measure (\<lambda>(r, s, i). Suc (length s) - i)") auto

definition finditer :: "rx \<Rightarrow> string \<Rightarrow> (nat \<times> nat \<times> (nat \<times> nat) option) list" where
  "finditer r s = finditer_from r s 0"

text \<open>\<^verbatim>\<open>re.split(r, s)\<close> for a pattern without a group: the pieces between the matches.\<close>

fun pieces :: "string \<Rightarrow> nat \<Rightarrow> (nat \<times> nat \<times> (nat \<times> nat) option) list \<Rightarrow> string list" where
  "pieces s pos [] = [drop pos s]"
| "pieces s pos ((a, b, g) # ms) = slice s pos a # pieces s b ms"

definition re_split :: "rx \<Rightarrow> string \<Rightarrow> string list" where
  "re_split r s = pieces s 0 (finditer r s)"

definition upper_letters :: string where
  "upper_letters = ''ABCDEFGHIJKLMNOPQRSTUVWXYZ''"

definition lower_letters :: string where
  "lower_letters = ''abcdefghijklmnopqrstuvwxyz''"

definition digits :: string where
  "digits = ''0123456789''"

text \<open>The characters of \<^verbatim>\<open>\s\<close>.\<close>

definition spaces :: string where
  "spaces =
     [CHR 0x09, CHR 0x0A, CHR 0x0B, CHR 0x0C, CHR 0x0D,
      CHR 0x1C, CHR 0x1D, CHR 0x1E, CHR 0x1F, CHR 0x20]"

subsection \<open>Numbers\<close>

text \<open>Rounding to the nearest integer, a tie going to the even neighbour (Python's \<^verbatim>\<open>round\<close>).\<close>

definition round_half_even :: "real \<Rightarrow> int" where
  "round_half_even x =
     (let f = \<lfloor>x\<rfloor>; d = x - of_int f
      in if d < 1 / 2 then f
         else if 1 / 2 < d then f + 1
         else if even f then f else f + 1)"

text \<open>\<^verbatim>\<open>round(x, 2)\<close>\<close>

definition round2 :: "real \<Rightarrow> real" where
  "round2 x = of_int (round_half_even (x * 100)) / 100"

text \<open>
  Binary64. The exponent of a positive number \<open>x\<close> is the \<open>e\<close> with \<open>2 ^ e \<le> x < 2 ^ (e + 1)\<close>,
  found by halving (for \<open>1 \<le> x\<close>) or doubling (for \<open>x < 1\<close>).
\<close>

function expo_hi :: "real \<Rightarrow> int" where
  "expo_hi x = (if x < 2 then 0 else expo_hi (x / 2) + 1)"
  by pat_completeness auto
termination
proof (relation "measure (\<lambda>x. nat \<lfloor>x\<rfloor>)")
  show "wf (measure (\<lambda>x. nat \<lfloor>x\<rfloor>))" by simp
next
  fix x :: real
  assume "\<not> x < 2"
  then have x: "2 \<le> x" by simp
  have "x / 2 \<le> x - 1" using x by simp
  then have "\<lfloor>x / 2\<rfloor> \<le> \<lfloor>x - 1\<rfloor>" by (rule floor_mono)
  then have "\<lfloor>x / 2\<rfloor> < \<lfloor>x\<rfloor>" by simp
  moreover have "0 < \<lfloor>x\<rfloor>" using x by simp
  ultimately show "(x / 2, x) \<in> measure (\<lambda>x. nat \<lfloor>x\<rfloor>)" by simp
qed

function expo_lo :: "real \<Rightarrow> int" where
  "expo_lo x = (if 1 \<le> x \<or> x \<le> 0 then 0 else expo_lo (2 * x) - 1)"
  by pat_completeness auto
termination
proof (relation "measure (\<lambda>x. nat \<lfloor>1 / x\<rfloor>)")
  show "wf (measure (\<lambda>x. nat \<lfloor>1 / x\<rfloor>))" by simp
next
  fix x :: real
  assume "\<not> (1 \<le> x \<or> x \<le> 0)"
  then have x: "0 < x" "x < 1" by simp_all
  define y where "y = 1 / x"
  have y: "1 < y" unfolding y_def using x by simp
  have n: "1 \<le> \<lfloor>y\<rfloor>" using y by simp
  have "y < of_int \<lfloor>y\<rfloor> + 1" by linarith
  then have "y / 2 < of_int \<lfloor>y\<rfloor>" using n by linarith
  then have l: "\<lfloor>y / 2\<rfloor> < \<lfloor>y\<rfloor>" by (simp add: floor_less_iff)
  have eq: "1 / (2 * x) = y / 2" unfolding y_def by simp
  have "\<lfloor>1 / (2 * x)\<rfloor> < \<lfloor>y\<rfloor>" unfolding eq by (rule l)
  then have "nat \<lfloor>1 / (2 * x)\<rfloor> < nat \<lfloor>1 / x\<rfloor>" using n unfolding y_def by linarith
  then show "(2 * x, x) \<in> measure (\<lambda>x. nat \<lfloor>1 / x\<rfloor>)" by simp
qed

declare expo_hi.simps [simp del]

declare expo_lo.simps [simp del]

definition exponent :: "real \<Rightarrow> int" where
  "exponent x = (if 1 \<le> x then expo_hi x else expo_lo x)"

text \<open>The double nearest to \<open>x\<close>, a tie going to the even significand: \<open>x\<close> is rounded to a
  multiple of \<open>2 ^ (e - 52)\<close>, where \<open>e\<close> is its exponent.\<close>

definition fl :: "real \<Rightarrow> real" where
  "fl x =
     (if x = 0 then 0
      else
        let a = \<bar>x\<bar>;
            ulp = 2 powi (exponent a - 52)
        in sgn x * of_int (round_half_even (a / ulp)) * ulp)"

text \<open>The operations \<^verbatim>\<open>+\<close>, \<^verbatim>\<open>*\<close> and \<^verbatim>\<open>/\<close> on doubles.\<close>

definition float_add :: "real \<Rightarrow> real \<Rightarrow> real" where
  "float_add x y = fl (x + y)"

definition float_mul :: "real \<Rightarrow> real \<Rightarrow> real" where
  "float_mul x y = fl (x * y)"

definition float_div :: "real \<Rightarrow> real \<Rightarrow> real" where
  "float_div x y = fl (x / y)"

text \<open>
  \<^verbatim>\<open>sorted(xs, key=key, reverse=True)\<close> and \<^verbatim>\<open>xs.sort(key=key, reverse=True)\<close>: a stable sort
  by descending key. Python keeps the sort stable under \<^verbatim>\<open>reverse\<close> by reversing the list,
  sorting it in ascending order and reversing the result.
\<close>

definition sorted_reverse :: "('a \<Rightarrow> 'k::linorder) \<Rightarrow> 'a list \<Rightarrow> 'a list" where
  "sorted_reverse key xs = rev (sort_key key (rev xs))"

subsection \<open>The catalog (\<^verbatim>\<open>job_database.py\<close>)\<close>

text \<open>
  One entry of \<^verbatim>\<open>JOB_DATABASE\<close>. The source reads every field with \<^verbatim>\<open>.get(field, default)\<close>;
  a missing key is the default (\<^verbatim>\<open>[]\<close>, or \<^verbatim>\<open>"General"\<close> for the category) in the record.
  The field \<^verbatim>\<open>keywords\<close> is \<open>role_keywords\<close>.
\<close>

record role_data =
  category :: string
  skills :: "string list"
  tools :: "string list"
  soft_skills :: "string list"
  certifications :: "string list"
  role_keywords :: "string list"

type_synonym job_database = "(string \<times> role_data) list"

text \<open>\<^verbatim>\<open>SKILL_SYNONYMS\<close>: canonical skill to its variants, in the order of the dictionary.\<close>

type_synonym synonyms = "(string \<times> string list) list"

definition SKILL_SYNONYMS :: synonyms where
  "SKILL_SYNONYMS =
    [(''python'', [''python3'', ''py'', ''python programming'']),
     (''javascript'', [''js'', ''javascript programming'', ''ecmascript'']),
     (''machine learning'', [''ml'', ''statistical learning'', ''predictive modeling'']),
     (''deep learning'', [''dl'', ''neural networks'', ''artificial neural networks'']),
     (''natural language processing'', [''nlp'', ''text analytics'', ''text mining'']),
     (''computer vision'', [''cv'', ''image processing'', ''visual recognition'']),
     (''sql'', [''structured query language'', ''tsql'', ''plsql'', ''mysql'', ''postgresql'']),
     (''aws'', [''amazon web services'', ''amazon aws'']),
     (''azure'', [''microsoft azure'', ''azure cloud'']),
     (''gcp'', [''google cloud platform'', ''google cloud'']),
     (''docker'', [''containerization'', ''containers'']),
     (''kubernetes'', [''k8s'', ''container orchestration'']),
     (''ci/cd'', [''continuous integration'', ''continuous deployment'', ''cicd'']),
     (''agile'', [''scrum'', ''agile methodology'', ''agile development'']),
     (''git'', [''version control'', ''source control'', ''github'', ''gitlab'']),
     (''react'', [''reactjs'', ''react.js'']),
     (''node.js'', [''nodejs'', ''node'']),
     (''api'', [''rest api'', ''restful api'', ''web service'']),
     (''tableau'', [''tableau desktop'', ''tableau server'']),
     (''power bi'', [''powerbi'', ''microsoft power bi'']),
     (''excel'', [''microsoft excel'', ''ms excel'', ''spreadsheet''])]"

text \<open>Two entries of \<^verbatim>\<open>JOB_DATABASE\<close>, as the repository has them, for concrete runs.\<close>

definition software_engineer :: role_data where
  "software_engineer =
    \<lparr>category = ''Technology'',
     skills = [''python'', ''java'', ''javascript'', ''c++'', ''go'', ''rust'', ''typescript''],
     tools = [''git'', ''github'', ''gitlab'', ''jenkins'', ''docker'', ''kubernetes'', ''ci/cd''],
     soft_skills = [''problem solving'', ''teamwork'', ''communication'', ''debugging''],
     certifications = [''aws certified developer'', ''google cloud certified'',
       ''microsoft certified''],
     role_keywords = [''development'', ''coding'', ''programming'', ''software'', ''backend'',
       ''frontend'']\<rparr>"

definition data_analyst :: role_data where
  "data_analyst =
    \<lparr>category = ''Data & Analytics'',
     skills = [''sql'', ''excel'', ''python'', ''statistics'', ''data visualization''],
     tools = [''tableau'', ''power bi'', ''looker'', ''google analytics'', ''excel''],
     soft_skills = [''analytical thinking'', ''communication'', ''attention to detail''],
     certifications = [''google data analytics'', ''tableau certified'', ''power bi certified''],
     role_keywords = [''data analysis'', ''reporting'', ''dashboards'', ''insights'', ''metrics'']\<rparr>"

definition sample_roles :: job_database where
  "sample_roles = [(''Software Engineer'', software_engineer), (''Data Analyst'', data_analyst)]"

subsection \<open>Role matching (\<^verbatim>\<open>role_matcher.py\<close>)\<close>

text \<open>
  \<^verbatim>\<open>_match_with_synonyms\<close>. The loop adds a required skill to \<^verbatim>\<open>matched\<close> when it is extracted
  itself, or when it is a key of the synonym table and one of its (lower-cased) variants is
  extracted, or when some extracted skill is a key of the table and lists it as a variant.
\<close>

definition has_extracted_synonym :: "synonyms \<Rightarrow> string \<Rightarrow> string set \<Rightarrow> bool" where
  "has_extracted_synonym syn req_skill extracted =
     (case map_of syn req_skill of
        None \<Rightarrow> False
      | Some vs \<Rightarrow> \<exists>s \<in> set (map lower vs). s \<in> extracted)"

definition is_synonym_of_extracted :: "synonyms \<Rightarrow> string \<Rightarrow> string set \<Rightarrow> bool" where
  "is_synonym_of_extracted syn req_skill extracted =
     (\<exists>ext_skill \<in> extracted.
        case map_of syn ext_skill of
          None \<Rightarrow> False
        | Some vs \<Rightarrow> req_skill \<in> set (map lower vs))"

definition match_with_synonyms :: "synonyms \<Rightarrow> string set \<Rightarrow> string set \<Rightarrow> string set" where
  "match_with_synonyms syn required extracted =
     Set.filter
       (\<lambda>req_skill. req_skill \<in> extracted
          \<or> has_extracted_synonym syn req_skill extracted
          \<or> is_synonym_of_extracted syn req_skill extracted)
       required"

text \<open>\<^verbatim>\<open>_calculate_coverage_score\<close>\<close>

definition calculate_coverage_score :: "string set \<Rightarrow> string set \<Rightarrow> real" where
  "calculate_coverage_score matched required =
     (if required = {} then 1
      else
        let coverage = real (card matched) / real (card required)
        in if card required < card matched
           then min 1 (coverage + min (1 / 10) (real (card matched - card required) * (2 / 100)))
           else coverage)"

text \<open>\<^verbatim>\<open>_match_certifications\<close>\<close>

definition match_certifications :: "string list \<Rightarrow> string set \<Rightarrow> real" where
  "match_certifications user_certs preferred_certs =
     (if preferred_certs = {} then 50
      else
        let user_certs_lower = set (map lower user_certs);
            matches = card (Set.filter
              (\<lambda>pref_cert. \<exists>user_cert \<in> user_certs_lower. contains user_cert pref_cert)
              preferred_certs)
        in if matches = 0 then 0
           else min 100 (real matches / real (card preferred_certs) * 100))"

text \<open>\<^verbatim>\<open>_calculate_confidence\<close>\<close>

definition calculate_confidence :: "real \<Rightarrow> real \<Rightarrow> nat \<Rightarrow> nat \<Rightarrow> string" where
  "calculate_confidence skill_score tool_score skills_count tools_count =
     (let avg_score = (skill_score + tool_score) / 2;
          total_matches = skills_count + tools_count
      in if 80 \<le> avg_score \<and> 8 \<le> total_matches then ''Very High''
         else if 60 \<le> avg_score \<and> 5 \<le> total_matches then ''High''
         else if 40 \<le> avg_score \<and> 3 \<le> total_matches then ''Medium''
         else if 20 \<le> avg_score then ''Low''
         else ''Very Low'')"

text \<open>\<^verbatim>\<open>_identify_critical_skills\<close>\<close>

definition identify_critical_skills :: "string set \<Rightarrow> string list \<Rightarrow> string set" where
  "identify_critical_skills missing_skills kws =
     (let keywords_lower = map lower kws
      in Set.filter
           (\<lambda>skill. \<exists>keyword \<in> set keywords_lower.
              contains skill keyword \<or> contains keyword skill)
           missing_skills)"

record score_breakdown =
  b_technical_skills :: real
  b_tools :: real
  b_soft_skills :: real
  b_certifications :: real
  b_experience :: real

record matched_skills =
  m_technical :: "string list"
  m_tools :: "string list"
  m_soft_skills :: "string list"

record missing_skills =
  critical :: "string list"
  all_missing :: "string list"

text \<open>
  \<^verbatim>\<open>match_count\<close> holds the strings \<^verbatim>\<open>f"{matched}/{required}"\<close>; the record keeps the two
  numbers of each.
\<close>

record match_count =
  mc_technical :: "nat \<times> nat"
  mc_tools :: "nat \<times> nat"
  mc_total :: "nat \<times> nat"

record role_match =
  role :: string
  match_category :: string
  overall_score :: real
  confidence :: string
  breakdown :: score_breakdown
  matched :: matched_skills
  missing :: missing_skills
  counts :: match_count

text \<open>
  \<^verbatim>\<open>_calculate_match\<close>. The source also receives \<^verbatim>\<open>skill_details\<close> and \<^verbatim>\<open>education\<close> and reads
  neither; they are the arguments \<open>skill_details\<close> and \<open>education\<close> here.
\<close>

definition calculate_match ::
  "synonyms \<Rightarrow> string \<Rightarrow> role_data \<Rightarrow> string list \<Rightarrow> 'd \<Rightarrow> int \<Rightarrow> string list \<Rightarrow> 'e
     \<Rightarrow> role_match" where
  "calculate_match syn role_name rd extracted_skills skill_details experience_years certs education =
     (let required_skills = set (map lower (skills rd));
          required_tools = set (map lower (tools rd));
          required_soft_skills = set (map lower (soft_skills rd));
          preferred_certs = set (map lower (certifications rd));
          extracted_set = set (map lower extracted_skills);
          skills_matched = match_with_synonyms syn required_skills extracted_set;
          tools_matched = match_with_synonyms syn required_tools extracted_set;
          soft_skills_matched = match_with_synonyms syn required_soft_skills extracted_set;
          skill_score = calculate_coverage_score skills_matched required_skills * 100;
          tool_score = calculate_coverage_score tools_matched required_tools * 100;
          soft_skill_score =
            calculate_coverage_score soft_skills_matched required_soft_skills * 100;
          cert_score = match_certifications certs preferred_certs;
          experience_score = real_of_int (min (experience_years * 10) 100);
          overall = skill_score * (40 / 100) + tool_score * (25 / 100)
            + soft_skill_score * (15 / 100) + cert_score * (10 / 100)
            + experience_score * (10 / 100);
          conf = calculate_confidence skill_score tool_score
            (card skills_matched) (card tools_matched);
          all_required = required_skills \<union> required_tools;
          all_matched = skills_matched \<union> tools_matched;
          missing_set = all_required - all_matched;
          critical_missing = identify_critical_skills missing_set (role_keywords rd)
      in \<lparr>role = role_name,
          match_category = category rd,
          overall_score = round2 overall,
          confidence = conf,
          breakdown =
            \<lparr>b_technical_skills = round2 skill_score,
             b_tools = round2 tool_score,
             b_soft_skills = round2 soft_skill_score,
             b_certifications = round2 cert_score,
             b_experience = round2 experience_score\<rparr>,
          matched =
            \<lparr>m_technical = sorted_list_of_set skills_matched,
             m_tools = sorted_list_of_set tools_matched,
             m_soft_skills = sorted_list_of_set soft_skills_matched\<rparr>,
          missing =
            \<lparr>critical = take 5 (sorted_list_of_set critical_missing),
             all_missing = take 10 (sorted_list_of_set missing_set)\<rparr>,
          counts =
            \<lparr>mc_technical = (card skills_matched, card required_skills),
             mc_tools = (card tools_matched, card required_tools),
             mc_total = (card all_matched, card all_required)\<rparr>\<rparr>)"

text \<open>
  \<^verbatim>\<open>match_roles\<close>: one \<^verbatim>\<open>_calculate_match\<close> per role of the catalog, in the order of the
  dictionary, then \<^verbatim>\<open>results.sort(key=overall_score, reverse=True)\<close>. \<^verbatim>\<open>certifications=None\<close> and
  \<^verbatim>\<open>education=None\<close> are replaced by \<^verbatim>\<open>[]\<close>.
\<close>

definition match_roles ::
  "synonyms \<Rightarrow> job_database \<Rightarrow> string list \<Rightarrow> 'd \<Rightarrow> int \<Rightarrow> string list option
     \<Rightarrow> 'e list option \<Rightarrow> role_match list" where
  "match_roles syn roles extracted_skills skill_details experience_years certs education =
     (let results =
            map (\<lambda>(role_name, rd).
                   calculate_match syn role_name rd extracted_skills skill_details
                     experience_years
                     (case certs of None \<Rightarrow> [] | Some cs \<Rightarrow> cs)
                     (case education of None \<Rightarrow> [] | Some es \<Rightarrow> es))
              roles
      in sorted_reverse overall_score results)"

subsection \<open>Skill extraction (\<^verbatim>\<open>skill_extractor.py\<close>)\<close>

text \<open>\<^verbatim>\<open>_build_skill_database\<close>: the set of all lower-cased skills, tools, soft skills, canonical
  names and variants.\<close>

definition build_skill_database :: "job_database \<Rightarrow> synonyms \<Rightarrow> string set" where
  "build_skill_database roles syn =
     (\<Union>(role_name, rd) \<in> set roles.
        set (map lower (skills rd)) \<union> set (map lower (tools rd))
          \<union> set (map lower (soft_skills rd)))
     \<union> (\<Union>(skill, variants) \<in> set syn. insert (lower skill) (set (map lower variants)))"

text \<open>
  \<^verbatim>\<open>_build_skill_patterns\<close>: \<^verbatim>\<open>sorted(self.all_skills, key=len, reverse=True)\<close>, then one pattern
  \<^verbatim>\<open>\b\<close> + \<^verbatim>\<open>re.escape(skill)\<close> + \<^verbatim>\<open>\b\<close> with \<^verbatim>\<open>re.IGNORECASE\<close> per skill. The argument is the set
  \<^verbatim>\<open>all_skills\<close> as a list, in the order in which Python iterates the set.
\<close>

definition skill_pattern :: "string \<Rightarrow> rx" where
  "skill_pattern skill = seqs [Bnd, LitI skill, Bnd]"

definition build_skill_patterns :: "string list \<Rightarrow> (string \<times> rx) list" where
  "build_skill_patterns all_skills =
     map (\<lambda>skill. (skill, skill_pattern skill)) (sorted_reverse length all_skills)"

text \<open>\<^verbatim>\<open>_normalize_skill\<close>: the first entry of the table whose key or one of whose variants is
  the skill gives the canonical name.\<close>

definition normalize_skill :: "synonyms \<Rightarrow> string \<Rightarrow> string" where
  "normalize_skill syn skill =
     (let skill_lower = lower skill
      in case find (\<lambda>(primary, variants).
                      skill_lower = primary \<or> skill_lower \<in> set (map lower variants)) syn of
           Some (primary, variants) \<Rightarrow> primary
         | None \<Rightarrow> skill_lower)"

text \<open>An entry of \<^verbatim>\<open>found_skills\<close>: \<^verbatim>\<open>count\<close>, \<^verbatim>\<open>contexts\<close> and \<^verbatim>\<open>confidence\<close>.\<close>

record skill_data =
  sd_count :: nat
  sd_contexts :: "string list"
  sd_confidence :: real

text \<open>
  One match of a pattern: the entry of the normalised skill is created if it is missing
  (count 0, no context), its count goes up by one and the context is stored while fewer
  than three are. \<^verbatim>\<open>found_skills\<close> is a dictionary; the list keeps its insertion order.
\<close>

fun add_mention :: "string \<Rightarrow> string \<Rightarrow> (string \<times> skill_data) list \<Rightarrow> (string \<times> skill_data) list" where
  "add_mention name ctx [] = [(name, \<lparr>sd_count = 1, sd_contexts = [ctx], sd_confidence = 0\<rparr>)]"
| "add_mention name ctx ((k, d) # rest) =
     (if k = name
      then (k, d\<lparr>sd_count := sd_count d + 1,
                 sd_contexts := (if length (sd_contexts d) < 3 then sd_contexts d @ [ctx]
                                 else sd_contexts d)\<rparr>) # rest
      else (k, d) # add_mention name ctx rest)"

text \<open>The context of a match: 50 characters on each side, stripped.\<close>

definition context_window :: "string \<Rightarrow> nat \<Rightarrow> nat \<Rightarrow> string" where
  "context_window text match_start match_end =
     (let start = match_start - 50;
          end = min (length text) (match_end + 50)
      in strip (slice text start end))"

definition record_matches ::
  "synonyms \<Rightarrow> string \<Rightarrow> string \<times> rx \<Rightarrow> (string \<times> skill_data) list
     \<Rightarrow> (string \<times> skill_data) list" where
  "record_matches syn text sp found =
     fold (\<lambda>(match_start, match_end, g).
             add_mention (normalize_skill syn (fst sp)) (context_window text match_start match_end))
       (finditer (snd sp) (lower text)) found"

definition section_keywords_boost :: "string list" where
  "section_keywords_boost = [''skills'', ''technologies'', ''tools'', ''expertise'']"

definition section_boost :: "skill_data \<Rightarrow> real" where
  "section_boost d =
     (if list_ex (\<lambda>ctx. list_ex (\<lambda>keyword. contains (lower ctx) keyword) section_keywords_boost)
           (sd_contexts d)
      then 3 / 10 else 0)"

definition skill_confidence :: "skill_data \<Rightarrow> real" where
  "skill_confidence d =
     (let base_confidence = min (real (sd_count d) * (2 / 10)) 1
      in min (base_confidence + section_boost d) 1)"

record extracted_skills =
  skill_details :: "(string \<times> skill_data) list"
  skill_list :: "string list"
  total_unique_skills :: nat
  high_confidence_skills :: "string list"

text \<open>\<^verbatim>\<open>extract_skills\<close>, for the compiled patterns \<^verbatim>\<open>self.skill_patterns\<close>. The field \<^verbatim>\<open>skills\<close> of
  the result is \<open>skill_details\<close>.\<close>

definition extract_skills :: "synonyms \<Rightarrow> (string \<times> rx) list \<Rightarrow> string \<Rightarrow> extracted_skills" where
  "extract_skills syn skill_patterns text =
     (let found_skills = fold (record_matches syn text) skill_patterns [];
          with_confidence =
            map (\<lambda>(skill, d). (skill, d\<lparr>sd_confidence := skill_confidence d\<rparr>)) found_skills;
          sorted_skills =
            sorted_reverse (\<lambda>(skill, d). (sd_confidence d, sd_count d)) with_confidence
      in \<lparr>skill_details = sorted_skills,
          skill_list = map fst sorted_skills,
          total_unique_skills = length sorted_skills,
          high_confidence_skills =
            map fst (filter (\<lambda>(skill, d). 7 / 10 < sd_confidence d) sorted_skills)\<rparr>)"

subsection \<open>ATS scoring (\<^verbatim>\<open>ats_analyzer.py\<close>)\<close>

text \<open>
  The suggestions, strengths and priorities of the source are message strings. Each
  constructor below is one message template of the source, with the values the template
  interpolates; the wording (and its leading emoji) is not modelled.
\<close>

datatype suggestion =
    Add_Required_Section string
  | Add_Recommended_Section string
  | Add_More_Technical_Skills
  | Increase_Keyword_Density
  | Add_N_More_Skills int
  | Use_More_Diverse_Verbs
  | Start_Bullets_With_Verbs
  | Replace_Weak_Phrase string
  | Example_Strong_Verbs
  | Add_Quantifiable_Metrics
  | Add_Numbers
  | Include_Percentages
  | Metrics_Example
  | Resume_Too_Short
  | Consider_Condensing
  | Use_Bullet_Points
  | Include_Email
  | Include_Phone
  | Add_LinkedIn
  | Include_GitHub_Or_Portfolio

datatype strength = Strong string real | Keep_Working

datatype priority = Urgent string real | Important string real | Great_Job

text \<open>\<^verbatim>\<open>sections.get(s, False)\<close>\<close>

definition section_present :: "(string \<rightharpoonup> bool) \<Rightarrow> string \<Rightarrow> bool" where
  "section_present sections s = (case sections s of None \<Rightarrow> False | Some b \<Rightarrow> b)"

definition required_sections :: "string list" where
  "required_sections = [''experience'', ''education'', ''skills'']"

definition recommended_sections :: "string list" where
  "recommended_sections = [''summary'', ''projects'', ''certifications'']"

text \<open>\<^verbatim>\<open>_score_sections\<close>\<close>

definition score_sections :: "(string \<rightharpoonup> bool) \<Rightarrow> real \<times> suggestion list" where
  "score_sections sections =
     (let required_present = length (filter (section_present sections) required_sections);
          recommended_present =
            length (filter (section_present sections) recommended_sections);
          score = real required_present / real (length required_sections) * 15
            + real recommended_present / real (length recommended_sections) * 10
      in (score,
          map Add_Required_Section
            (filter (\<lambda>s. \<not> section_present sections s) required_sections)
          @ map Add_Recommended_Section
              (filter (\<lambda>s. \<not> section_present sections s) recommended_sections)))"

text \<open>\<^verbatim>\<open>_score_keywords\<close>\<close>

definition score_keywords :: "string \<Rightarrow> string list \<Rightarrow> real \<times> suggestion list" where
  "score_keywords text skill_names =
     (let skill_count = length skill_names;
          (score1, suggestions1) =
            (if 15 \<le> skill_count then (10, [])
             else if 10 \<le> skill_count then (7, [])
             else if 5 \<le> skill_count then (4, [])
             else (0 :: real, [Add_More_Technical_Skills]));
          word_count = length (split text);
          (score2, suggestions2) =
            (if 0 < word_count
             then
               let keyword_density = real (skill_count * 3) / real word_count
               in if 5 / 100 \<le> keyword_density then (10, [])
                  else if 3 / 100 \<le> keyword_density then (7, [])
                  else if 1 / 100 \<le> keyword_density then (4, [])
                  else (0 :: real, [Increase_Keyword_Density])
             else (0, []));
          suggestions3 =
            (if skill_count < 8 then [Add_N_More_Skills (8 - int skill_count)] else [])
      in (score1 + score2, suggestions1 @ suggestions2 @ suggestions3))"

text \<open>An entry of the action-verb list: \<^verbatim>\<open>{"verb": ..., "count": ...}\<close>.\<close>

record verb_usage =
  verb :: string
  verb_count :: int

definition weak_phrases :: "string list" where
  "weak_phrases = [''responsible for'', ''duties include'', ''tasks include'']"

text \<open>\<^verbatim>\<open>_score_action_verbs\<close>\<close>

definition score_action_verbs :: "string \<Rightarrow> verb_usage list \<Rightarrow> real \<times> suggestion list" where
  "score_action_verbs text action_verbs =
     (let text_lower = lower text;
          unique_verbs = length action_verbs;
          total_verb_usage = sum_list (map verb_count action_verbs);
          (score1, suggestions1) =
            (if 10 \<le> unique_verbs then (7, [])
             else if 6 \<le> unique_verbs then (5, [])
             else if 3 \<le> unique_verbs then (3, [])
             else (0 :: real, [Use_More_Diverse_Verbs]));
          (score2, suggestions2) =
            (if 15 \<le> total_verb_usage then (8, [])
             else if 10 \<le> total_verb_usage then (5, [])
             else if 5 \<le> total_verb_usage then (3, [])
             else (0 :: real, [Start_Bullets_With_Verbs]));
          suggestions3 =
            map Replace_Weak_Phrase (filter (\<lambda>phrase. contains text_lower phrase) weak_phrases);
          suggestions4 = (if unique_verbs < 8 then [Example_Strong_Verbs] else [])
      in (score1 + score2, suggestions1 @ suggestions2 @ suggestions3 @ suggestions4))"

text \<open>An entry of the metrics list: \<^verbatim>\<open>{"metric": ..., "context": ...}\<close>.\<close>

record metric_mention =
  metric :: string
  metric_context :: string

text \<open>\<^verbatim>\<open>_score_metrics\<close>; \<^verbatim>\<open>sum([has_percentages, has_numbers, has_currency])\<close> counts the true
  ones.\<close>

definition score_metrics :: "metric_mention list \<Rightarrow> string \<Rightarrow> real \<times> suggestion list" where
  "score_metrics metrics text =
     (let metric_count = length metrics;
          (score1, suggestions1) =
            (if 8 \<le> metric_count then (15, [])
             else if 5 \<le> metric_count then (10, [])
             else if 3 \<le> metric_count then (6, [])
             else if 1 \<le> metric_count then (3, [])
             else (0 :: real, [Add_Quantifiable_Metrics]));
          has_percentages = list_ex (\<lambda>m. contains (metric m) ''%'') metrics;
          has_numbers = list_ex (\<lambda>m. search (Many 2 None (In digits)) (metric m)) metrics;
          has_currency = list_ex (\<lambda>m. contains (metric m) ''$'') metrics;
          quality_count = length (filter id [has_percentages, has_numbers, has_currency]);
          score2 = real quality_count / 3 * 5
      in (score1 + score2,
          suggestions1
          @ (if metric_count < 5 then [Add_Numbers] else [])
          @ (if \<not> has_percentages then [Include_Percentages] else [])
          @ (if metric_count = 0 then [Metrics_Example] else [])))"

text \<open>The five bullet patterns of \<^verbatim>\<open>_score_formatting\<close>; the bullet, the pointer and the arrow
  are U+2022, U+25BA and U+2192.\<close>

definition bullet_patterns :: "rx list" where
  "bullet_patterns =
     [Lit [CHR 0xE2, CHR 0x80, CHR 0xA2], Lit ''-'', Lit [CHR 0xE2, CHR 0x96, CHR 0xBA],
      Lit [CHR 0xE2, CHR 0x86, CHR 0x92], Lit ''*'']"

text \<open>\<^verbatim>\<open>_score_formatting\<close>\<close>

definition score_formatting :: "string \<Rightarrow> real \<times> suggestion list" where
  "score_formatting text =
     (let word_count = length (split text);
          (score1, suggestions1) =
            (if 400 \<le> word_count \<and> word_count \<le> 1000 then (5, [])
             else if 300 \<le> word_count \<and> word_count \<le> 1200 then (3, [])
             else if word_count < 300 then (0 :: real, [Resume_Too_Short])
             else (0, [Consider_Condensing]));
          has_bullets = list_ex (\<lambda>pattern. search pattern text) bullet_patterns;
          (score2, suggestions2) =
            (if has_bullets then (5, []) else (0 :: real, [Use_Bullet_Points]))
      in (score1 + score2, suggestions1 @ suggestions2))"

text \<open>\<^verbatim>\<open>\b[A-Za-z0-9._%+-]+@[A-Za-z0-9.-]+\.[A-Z|a-z]{2,}\b\<close>\<close>

definition email_pattern :: rx where
  "email_pattern =
     seqs [Bnd,
           Many 1 None (In (upper_letters @ lower_letters @ digits @ ''._%+-'')),
           Lit ''@'',
           Many 1 None (In (upper_letters @ lower_letters @ digits @ ''.-'')),
           Lit ''.'',
           Many 2 None (In (upper_letters @ ''|'' @ lower_letters)),
           Bnd]"

text \<open>\<^verbatim>\<open>\b\d{3}[-.]?\d{3}[-.]?\d{4}\b\<close>\<close>

definition phone_pattern :: rx where
  "phone_pattern =
     seqs [Bnd,
           Many 3 (Some 3) (In digits),
           Many 0 (Some 1) (In ''-.''),
           Many 3 (Some 3) (In digits),
           Many 0 (Some 1) (In ''-.''),
           Many 4 (Some 4) (In digits),
           Bnd]"

text \<open>\<^verbatim>\<open>_score_contact_info\<close>\<close>

definition score_contact_info :: "string \<Rightarrow> real \<times> suggestion list" where
  "score_contact_info text =
     (let (score1, suggestions1) =
            (if search email_pattern text then (3, []) else (0 :: real, [Include_Email]));
          (score2, suggestions2) =
            (if search phone_pattern text then (2, []) else (0 :: real, [Include_Phone]));
          (score3, suggestions3) =
            (if contains (lower text) ''linkedin'' then (3, []) else (0 :: real, [Add_LinkedIn]));
          (score4, suggestions4) =
            (if contains (lower text) ''github'' \<or> contains (lower text) ''portfolio''
             then (2, []) else (0 :: real, [Include_GitHub_Or_Portfolio]))
      in (score1 + score2 + score3 + score4,
          suggestions1 @ suggestions2 @ suggestions3 @ suggestions4))"

text \<open>\<^verbatim>\<open>_get_grade_and_feedback\<close>\<close>

definition get_grade_and_feedback :: "real \<Rightarrow> string \<times> string" where
  "get_grade_and_feedback score =
     (if 90 \<le> score then
        (''A+'', ''Excellent! Your resume is highly optimized for ATS systems.'')
      else if 85 \<le> score then (''A'', ''Great! Your resume should pass most ATS systems.'')
      else if 80 \<le> score then
        (''A-'', ''Very good! Minor improvements will maximize your chances.'')
      else if 75 \<le> score then
        (''B+'', ''Good! Some enhancements needed for optimal ATS performance.'')
      else if 70 \<le> score then
        (''B'', ''Decent. Address key suggestions to improve ATS compatibility.'')
      else if 65 \<le> score then (''B-'', ''Fair. Important improvements needed.'')
      else if 60 \<le> score then (''C+'', ''Below average. Significant improvements required.'')
      else if 55 \<le> score then (''C'', ''Poor. Major revisions needed for ATS success.'')
      else (''D'', ''Critical issues detected. Complete restructuring recommended.''))"

text \<open>\<^verbatim>\<open>_get_max_score\<close>\<close>

definition max_scores :: "(string \<times> real) list" where
  "max_scores =
     [(''sections'', 25), (''keywords'', 20), (''action_verbs'', 15), (''metrics'', 20),
      (''formatting'', 10), (''contact'', 10)]"

definition get_max_score :: "string \<Rightarrow> real" where
  "get_max_score cat = (case map_of max_scores cat of None \<Rightarrow> 0 | Some m \<Rightarrow> m)"

definition percentage_of_max :: "string \<Rightarrow> real \<Rightarrow> real" where
  "percentage_of_max cat score =
     (let max_score = get_max_score cat
      in if 0 < max_score then score / max_score * 100 else 0)"

text \<open>\<^verbatim>\<open>_identify_strengths\<close>\<close>

definition identify_strengths :: "(string \<times> real) list \<Rightarrow> strength list" where
  "identify_strengths scores =
     (let strengths =
            map (\<lambda>(cat, score). Strong cat (percentage_of_max cat score))
              (filter (\<lambda>(cat, score). 80 \<le> percentage_of_max cat score) scores)
      in if strengths = [] then [Keep_Working] else strengths)"

text \<open>\<^verbatim>\<open>_identify_priorities\<close>\<close>

definition identify_priorities :: "(string \<times> real) list \<Rightarrow> suggestion list \<Rightarrow> priority list" where
  "identify_priorities scores suggestions =
     (let priorities =
            concat (map (\<lambda>(cat, score).
                           let percentage = percentage_of_max cat score
                           in if percentage < 50 then [Urgent cat percentage]
                              else if percentage < 70 then [Important cat percentage]
                              else [])
                      scores)
      in if priorities = [] then [Great_Job] else take 5 priorities)"

record ats_result =
  ats_overall_score :: real
  ats_grade :: string
  ats_feedback :: string
  ats_breakdown :: "(string \<times> real) list"
  ats_suggestions :: "suggestion list"
  ats_strengths :: "strength list"
  ats_priority_improvements :: "priority list"

text \<open>\<^verbatim>\<open>analyze_ats_score\<close>. \<^verbatim>\<open>scores\<close> is a dictionary with the six keys in the order in which
  they are set; \<^verbatim>\<open>overall_score = sum(scores.values())\<close>.\<close>

definition analyze_ats_score ::
  "string \<Rightarrow> string list \<Rightarrow> (string \<rightharpoonup> bool) \<Rightarrow> verb_usage list \<Rightarrow> metric_mention list
     \<Rightarrow> ats_result" where
  "analyze_ats_score text skill_names sections_found action_verbs metrics =
     (let (section_score, section_suggestions) = score_sections sections_found;
          (keyword_score, keyword_suggestions) = score_keywords text skill_names;
          (verb_score, verb_suggestions) = score_action_verbs text action_verbs;
          (metrics_score, metrics_suggestions) = score_metrics metrics text;
          (format_score, format_suggestions) = score_formatting text;
          (contact_score, contact_suggestions) = score_contact_info text;
          scores =
            [(''sections'', section_score), (''keywords'', keyword_score),
             (''action_verbs'', verb_score), (''metrics'', metrics_score),
             (''formatting'', format_score), (''contact'', contact_score)];
          suggestions = section_suggestions @ keyword_suggestions @ verb_suggestions
            @ metrics_suggestions @ format_suggestions @ contact_suggestions;
          overall = sum_list (map snd scores);
          (grade, feedback) = get_grade_and_feedback overall
      in \<lparr>ats_overall_score = round2 overall,
          ats_grade = grade,
          ats_feedback = feedback,
          ats_breakdown = scores,
          ats_suggestions = take 15 suggestions,
          ats_strengths = identify_strengths scores,
          ats_priority_improvements = identify_priorities scores suggestions\<rparr>)"

subsection \<open>Job-description matching (\<^verbatim>\<open>jd_matcher.py\<close>)\<close>

definition stop_words :: "string list" where
  "stop_words =
     [''the'', ''a'', ''an'', ''and'', ''or'', ''but'', ''in'', ''on'', ''at'', ''to'', ''for'',
      ''of'', ''with'', ''by'', ''from'', ''as'', ''is'', ''was'', ''are'', ''were'', ''be'',
      ''been'', ''being'', ''have'', ''has'', ''had'', ''do'', ''does'', ''did'', ''will'',
      ''would'', ''should'', ''could'', ''may'', ''might'', ''must'', ''can'', ''this'',
      ''that'', ''these'', ''those'', ''i'', ''you'', ''he'', ''she'', ''it'', ''we'', ''they'',
      ''who'', ''what'', ''where'', ''when'', ''why'', ''how'', ''all'', ''each'', ''every'',
      ''both'', ''few'', ''more'', ''most'', ''other'', ''some'', ''such'', ''than'', ''too'',
      ''very'', ''our'', ''your'', ''their'']"

text \<open>\<^verbatim>\<open>_extract_keywords\<close>: \<^verbatim>\<open>re.sub(r'[^a-zA-Z\s]', ' ', text.lower())\<close>, then the words longer
  than three characters that are not stop words.\<close>

definition extract_keywords :: "string \<Rightarrow> string set" where
  "extract_keywords text =
     (let text_clean =
            map (\<lambda>c. if is_alpha c \<or> is_space c then c else CHR '' '') (lower text);
          ws = split text_clean
      in set (filter (\<lambda>word. 3 < length word \<and> word \<notin> set stop_words) ws))"

text \<open>The tail \<^verbatim>\<open>:?\s*([^\n]+)\<close> that the five skill patterns share.\<close>

definition rest_of_line :: "rx list" where
  "rest_of_line =
     [Many 0 (Some 1) (In '':''), Many 0 None (In spaces), Grp (Many 1 None (NotIn [CHR 10]))]"

definition jd_skill_patterns :: "rx list" where
  "jd_skill_patterns =
     [seqs ([Lit ''required skill'', Many 0 (Some 1) (In ''s'')] @ rest_of_line),
      seqs ([Lit ''qualification'', Many 0 (Some 1) (In ''s'')] @ rest_of_line),
      seqs ([Lit ''experience '', Alt (Lit ''with'') (Lit ''in'')] @ rest_of_line),
      seqs ([Lit ''proficient '', Alt (Lit ''with'') (Lit ''in'')] @ rest_of_line),
      seqs ([Lit ''knowledge of''] @ rest_of_line)]"

text \<open>The separators of \<^verbatim>\<open>re.split(r'[,;...\n]', skill_text)\<close>: comma, semicolon, the three
  characters U+00E2, U+20AC and U+00A2 that the class of the source holds, and the line
  feed.\<close>

definition skill_separator :: rx where
  "skill_separator =
     Alt (Many 1 (Some 1) (In [CHR '','', CHR '';'', CHR 10]))
       (Alt (Lit [CHR 0xC3, CHR 0xA2])
          (Alt (Lit [CHR 0xE2, CHR 0x82, CHR 0xAC]) (Lit [CHR 0xC2, CHR 0xA2])))"

definition tech_keywords :: "string list" where
  "tech_keywords =
     [''python'', ''java'', ''javascript'', ''sql'', ''aws'', ''azure'', ''gcp'',
      ''docker'', ''kubernetes'', ''react'', ''angular'', ''node'', ''git'',
      ''machine learning'', ''data science'', ''analytics'', ''tableau'',
      ''power bi'', ''excel'', ''agile'', ''scrum'', ''jira'']"

text \<open>The skills one pattern contributes: for each match, the pieces of group 1, stripped,
  of more than 2 and fewer than 50 characters.\<close>

definition pattern_skills :: "string \<Rightarrow> rx \<Rightarrow> string list" where
  "pattern_skills jd_lower pattern =
     concat (map (\<lambda>(match_start, match_end, g).
                    case g of
                      None \<Rightarrow> []
                    | Some (group_start, group_end) \<Rightarrow>
                        filter (\<lambda>skill. 2 < len skill \<and> len skill < 50)
                          (map strip
                             (re_split skill_separator (slice jd_lower group_start group_end))))
               (finditer pattern jd_lower))"

text \<open>\<^verbatim>\<open>_extract_jd_skills\<close>\<close>

definition extract_jd_skills :: "string \<Rightarrow> string set" where
  "extract_jd_skills jd_text =
     (let jd_lower = lower jd_text
      in set (concat (map (pattern_skills jd_lower) jd_skill_patterns))
         \<union> set (filter (\<lambda>keyword. contains jd_lower keyword) tech_keywords))"

text \<open>\<^verbatim>\<open>_calculate_match_score\<close>: \<^verbatim>\<open>(len(matched) / len(total)) * 100\<close> on doubles.\<close>

definition calculate_match_score :: "string set \<Rightarrow> string set \<Rightarrow> real" where
  "calculate_match_score matched_set total_set =
     (if total_set = {} then 100
      else float_mul (float_div (real (card matched_set)) (real (card total_set))) 100)"

text \<open>\<^verbatim>\<open>_get_match_grade\<close>\<close>

definition get_match_grade :: "real \<Rightarrow> string" where
  "get_match_grade score =
     (if 90 \<le> score then ''A+ (Excellent Match)''
      else if 80 \<le> score then ''A (Great Match)''
      else if 70 \<le> score then ''B (Good Match)''
      else if 60 \<le> score then ''C (Fair Match)''
      else if 50 \<le> score then ''D (Weak Match)''
      else ''F (Poor Match)'')"

text \<open>
  The result of \<^verbatim>\<open>analyze_jd_match\<close> for a usable job description: the score, the grade, the
  two component scores (\<^verbatim>\<open>breakdown\<close>), the matched and missing sets and the coverage counts.
  The fields \<^verbatim>\<open>section_alignment\<close>, \<^verbatim>\<open>recommendations\<close> and the must-have / nice-to-have split
  of the missing skills are not part of the model; none of them enters the score.
\<close>

record jd_match =
  match_score :: real
  match_grade :: string
  keyword_match :: real
  skill_match :: real
  matched_skill_names :: "string list"
  matched_keywords :: "string list"
  missing_keywords :: "string list"
  skill_coverage :: "nat \<times> nat"
  keyword_coverage :: "nat \<times> nat"

text \<open>\<open>No_Job_Description\<close> is the dictionary with \<^verbatim>\<open>"match_score": None\<close>,
  \<^verbatim>\<open>"analysis": "No job description provided"\<close> and no recommendations.\<close>

datatype jd_analysis = No_Job_Description | JD_Match jd_match

text \<open>\<^verbatim>\<open>analyze_jd_match\<close>; \<open>None\<close> is a job description that is absent. The literals \<^verbatim>\<open>0.6\<close> and
  \<^verbatim>\<open>0.4\<close> are the doubles \<open>fl (6 / 10)\<close> and \<open>fl (4 / 10)\<close>.\<close>

definition analyze_jd_match :: "string \<Rightarrow> string option \<Rightarrow> string list \<Rightarrow> jd_analysis" where
  "analyze_jd_match resume_text jd skill_names =
     (case jd of
        None \<Rightarrow> No_Job_Description
      | Some jd_text \<Rightarrow>
          if jd_text = [] \<or> len (strip jd_text) < 30 then No_Job_Description
          else
            let resume_keywords = extract_keywords resume_text;
                jd_keywords = extract_keywords jd_text;
                jd_required_skills = extract_jd_skills jd_text;
                keyword_matches = resume_keywords \<inter> jd_keywords;
                keyword_missing = jd_keywords - resume_keywords;
                skill_matches = set skill_names \<inter> jd_required_skills;
                keyword_score = calculate_match_score keyword_matches jd_keywords;
                skill_score = calculate_match_score skill_matches jd_required_skills;
                overall = float_add (float_mul keyword_score (fl (6 / 10)))
                            (float_mul skill_score (fl (4 / 10)))
            in JD_Match
                 \<lparr>match_score = round2 overall,
                  match_grade = get_match_grade overall,
                  keyword_match = round2 keyword_score,
                  skill_match = round2 skill_score,
                  matched_skill_names = sorted_list_of_set skill_matches,
                  matched_keywords = take 20 (sorted_list_of_set keyword_matches),
                  missing_keywords = take 15 (sorted_list_of_set keyword_missing),
                  skill_coverage = (card skill_matches, card jd_required_skills),
                  keyword_coverage = (card keyword_matches, card jd_keywords)\<rparr>)"

subsection \<open>The health score (\<^verbatim>\<open>analysis_service.py\<close>)\<close>

text \<open>\<^verbatim>\<open>_calculate_health_score\<close>\<close>

definition calculate_health_score ::
  "real \<Rightarrow> int \<Rightarrow> int \<Rightarrow> int \<Rightarrow> (string \<rightharpoonup> bool) \<Rightarrow> real" where
  "calculate_health_score ats_score skill_count n_verbs n_metrics sections =
     (let ats_component = ats_score / 100 * 40;
          skill_score = min (real_of_int skill_count / 15) 1 * 25;
          verb_score = min (real_of_int n_verbs / 10) 1 * 10;
          metric_score = min (real_of_int n_metrics / 5) 1 * 10;
          content_component = verb_score + metric_score;
          section_count = length (filter (section_present sections) required_sections);
          completeness = real section_count / real (length required_sections) * 15;
          total_score = ats_component + skill_score + content_component + completeness
      in round2 total_score)"

text \<open>\<^verbatim>\<open>_get_health_status\<close>\<close>

definition get_health_status :: "real \<Rightarrow> string" where
  "get_health_status score =
     (if 85 \<le> score then ''Excellent''
      else if 70 \<le> score then ''Good''
      else if 55 \<le> score then ''Fair''
      else ''Needs Improvement'')"

subsection \<open>Observations on results, and the formulas of the specification\<close>

text \<open>The suggestions that ask to replace a weak phrase.\<close>

fun is_weak_phrase_suggestion :: "suggestion \<Rightarrow> bool" where
  "is_weak_phrase_suggestion (Replace_Weak_Phrase p) = True"
| "is_weak_phrase_suggestion _ = False"

text \<open>
  The number of occurrences of a phrase in a text (the positions at which it starts). The
  source does not compute it; the specification relates the suggestions to it.
\<close>

fun occurrences :: "string \<Rightarrow> string \<Rightarrow> nat" where
  "occurrences [] sub = (if sub = [] then 1 else 0)"
| "occurrences (c # cs) sub =
     (if starts_with (c # cs) sub then 1 else 0) + occurrences cs sub"

text \<open>The number of required sections that are present (\<^verbatim>\<open>section_count\<close> in
  \<^verbatim>\<open>_calculate_health_score\<close>).\<close>

definition required_sections_present :: "(string \<rightharpoonup> bool) \<Rightarrow> nat" where
  "required_sections_present sections =
     length (filter (section_present sections) required_sections)"

text \<open>
  The health score as the specification writes it: each of the five terms a share of 100
  points (40, 25, 10, 10 and 15).
\<close>

definition health_formula :: "real \<Rightarrow> int \<Rightarrow> int \<Rightarrow> int \<Rightarrow> nat \<Rightarrow> real" where
  "health_formula ats_score skill_count n_verbs n_metrics sections_present =
     40 / 100 * (ats_score / 100) * 100
     + 25 / 100 * min (real_of_int skill_count / 15) 1 * 100
     + 10 / 100 * min (real_of_int n_verbs / 10) 1 * 100
     + 10 / 100 * min (real_of_int n_metrics / 5) 1 * 100
     + 15 / 100 * (real sections_present / 3) * 100"

text \<open>
  The match score as the specification writes it: 0.6 times the keyword score plus 0.4
  times the skill score, each component matched / total times 100, or 100 for an empty
  total set.
\<close>

definition component_formula :: "string set \<Rightarrow> string set \<Rightarrow> real" where
  "component_formula matched_set total_set =
     (if total_set = {} then 100 else real (card matched_set) / real (card total_set) * 100)"

definition jd_score_formula :: "string \<Rightarrow> string \<Rightarrow> string list \<Rightarrow> real" where
  "jd_score_formula resume_text jd_text skill_names =
     6 / 10 * component_formula (extract_keywords resume_text \<inter> extract_keywords jd_text)
                (extract_keywords jd_text)
     + 4 / 10 * component_formula (set skill_names \<inter> extract_jd_skills jd_text)
                  (extract_jd_skills jd_text)"

text \<open>\<^verbatim>\<open>result["match_score"]\<close>: \<^verbatim>\<open>None\<close> in the sentinel, the score otherwise.\<close>

fun jd_match_score :: "jd_analysis \<Rightarrow> real option" where
  "jd_match_score No_Job_Description = None"
| "jd_match_score (JD_Match m) = Some (match_score m)"

text \<open>
  The number of matches of the patterns whose skill normalises to \<open>name\<close>: the number of
  mentions of the canonical skill \<open>name\<close> in the text.
\<close>

definition mention_count :: "synonyms \<Rightarrow> (string \<times> rx) list \<Rightarrow> string \<Rightarrow> string \<Rightarrow> nat" where
  "mention_count syn skill_patterns text name =
     sum_list (map (\<lambda>sp. if normalize_skill syn (fst sp) = name
                          then length (finditer (snd sp) (lower text)) else 0) skill_patterns)"

text \<open>The count stored for a skill in \<^verbatim>\<open>found_skills\<close>, 0 for a skill without an entry.\<close>

definition count_of :: "(string \<times> skill_data) list \<Rightarrow> string \<Rightarrow> nat" where
  "count_of found k = (case map_of found k of None \<Rightarrow> 0 | Some d \<Rightarrow> sd_count d)"

text \<open>The invariant of the extraction loop: \<^verbatim>\<open>found_skills\<close> has one entry per key, and no
  entry stores more than three contexts.\<close>

definition well_formed :: "(string \<times> skill_data) list \<Rightarrow> bool" where
  "well_formed found =
     (distinct (map fst found) \<and> (\<forall>(k, d) \<in> set found. length (sd_contexts d) \<le> 3))"

text \<open>One list of the elements of \<^verbatim>\<open>all_skills\<close> (roles first, then the synonym table), for
  concrete runs; Python may iterate the set in any order.\<close>

definition skill_database_list :: "job_database \<Rightarrow> synonyms \<Rightarrow> string list" where
  "skill_database_list roles syn =
     remdups
       (concat (map (\<lambda>(role_name, rd).
                       map lower (skills rd) @ map lower (tools rd) @ map lower (soft_skills rd))
                  roles)
        @ concat (map (\<lambda>(skill, variants). lower skill # map lower variants) syn))"

text \<open>The patterns of five skills, longest first, for concrete runs.\<close>

definition sample_patterns :: "(string \<times> rx) list" where
  "sample_patterns = build_skill_patterns [''js'', ''javascript'', ''git'', ''node.js'', ''node'']"

text \<open>A job description of 29 characters and 32 bytes, for concrete runs: the word
  "Developpeur" with an acute accent on its first "e", then "Python", the letter "a" with a
  grave accent, and "Montreal" with an acute accent on its "e".\<close>

definition accented_jd :: string where
  "accented_jd =
     ''D'' @ [CHR 0xC3, CHR 0xA9] @ ''veloppeur Python '' @ [CHR 0xC3, CHR 0xA0]
     @ '' Montr'' @ [CHR 0xC3, CHR 0xA9] @ ''al''"

section \<open>Properties\<close>

subsection \<open>Rounding and sorting\<close>

lemma round_half_even_ge: "of_int n \<le> x \<Longrightarrow> n \<le> round_half_even x"
proof -
  assume "of_int n \<le> x"
  then have "n \<le> \<lfloor>x\<rfloor>" by (simp add: le_floor_iff)
  then show ?thesis unfolding round_half_even_def Let_def by auto
qed

lemma round_half_even_le: "x \<le> of_int n \<Longrightarrow> round_half_even x \<le> n"
proof -
  assume h: "x \<le> of_int n"
  have fl: "\<lfloor>x\<rfloor> \<le> n" using h by (metis floor_of_int floor_mono)
  show ?thesis
  proof (cases "x = of_int \<lfloor>x\<rfloor>")
    case True
    then show ?thesis using fl unfolding round_half_even_def Let_def by simp
  next
    case False
    then have "of_int \<lfloor>x\<rfloor> < x" by (metis of_int_floor_le order_less_le)
    then have "of_int \<lfloor>x\<rfloor> < (of_int n :: real)" using h by linarith
    then have "\<lfloor>x\<rfloor> < n" by simp
    then show ?thesis unfolding round_half_even_def Let_def by auto
  qed
qed

lemma round2_bounds:
  assumes "0 \<le> x" "x \<le> 100"
  shows "0 \<le> round2 x \<and> round2 x \<le> 100"
proof -
  have "(of_int 0 :: real) \<le> x * 100" using assms by simp
  then have a: "0 \<le> round_half_even (x * 100)" by (rule round_half_even_ge)
  have "x * 100 \<le> of_int 10000" using assms by simp
  then have b: "round_half_even (x * 100) \<le> 10000" by (rule round_half_even_le)
  have "real_of_int (round_half_even (x * 100)) \<le> real_of_int 10000" using b
    by (simp only: of_int_le_iff)
  then show ?thesis using a unfolding round2_def by simp
qed

lemma round2_zero: "round2 0 = 0"
  unfolding round2_def round_half_even_def by simp

text \<open>Rounding to the nearest double keeps the order of non-negative numbers.\<close>

lemma round_half_even_between:
  "\<lfloor>x\<rfloor> \<le> round_half_even x \<and> round_half_even x \<le> \<lfloor>x\<rfloor> + 1"
  unfolding round_half_even_def Let_def by auto

lemma round_half_even_mono:
  assumes "x \<le> y"
  shows "round_half_even x \<le> round_half_even y"
proof (cases "\<lfloor>x\<rfloor> = \<lfloor>y\<rfloor>")
  case True
  have "x - of_int \<lfloor>x\<rfloor> \<le> y - of_int \<lfloor>y\<rfloor>" using assms True by simp
  then show ?thesis unfolding round_half_even_def Let_def True by auto
next
  case False
  have "\<lfloor>x\<rfloor> \<le> \<lfloor>y\<rfloor>" using assms by (rule floor_mono)
  then have "\<lfloor>x\<rfloor> + 1 \<le> \<lfloor>y\<rfloor>" using False by simp
  then show ?thesis
    using round_half_even_between[of x] round_half_even_between[of y] by linarith
qed

lemma expo_hi_bounds:
  "1 \<le> x \<Longrightarrow> 2 powi (expo_hi x) \<le> x \<and> x < 2 powi (expo_hi x + 1)"
proof (induction x rule: expo_hi.induct)
  case (1 x)
  show ?case
  proof (cases "x < 2")
    case True
    then have "expo_hi x = 0" by (subst expo_hi.simps) simp
    then show ?thesis using True "1.prems" by simp
  next
    case False
    then have h: "1 \<le> x / 2" by simp
    note ih = "1.IH"[OF False h]
    have e: "expo_hi x = expo_hi (x / 2) + 1" using False by (subst expo_hi.simps) simp
    have a: "(2::real) powi (expo_hi (x / 2) + 1) = 2 powi (expo_hi (x / 2)) * 2"
      by (simp add: power_int_add)
    have b: "(2::real) powi (expo_hi (x / 2) + 1 + 1) = 2 powi (expo_hi (x / 2) + 1) * 2"
      by (simp add: power_int_add)
    show ?thesis unfolding e a b using ih a by (simp add: field_simps)
  qed
qed

lemma expo_lo_bounds:
  "0 < x \<Longrightarrow> x < 1 \<Longrightarrow> 2 powi (expo_lo x) \<le> x \<and> x < 2 powi (expo_lo x + 1)"
proof (induction x rule: expo_lo.induct)
  case (1 x)
  have c: "\<not> (1 \<le> x \<or> x \<le> 0)" using "1.prems" by simp
  have e: "expo_lo x = expo_lo (2 * x) - 1" using c by (subst expo_lo.simps) simp
  show ?case
  proof (cases "2 * x < 1")
    case True
    have p: "0 < 2 * x" using "1.prems" by simp
    note ih = "1.IH"[OF c p True]
    have a: "(2::real) powi (expo_lo (2 * x)) = 2 powi (expo_lo (2 * x) - 1) * 2"
      using power_int_add[of "2::real" "expo_lo (2 * x) - 1" 1] by simp
    have b: "(2::real) powi (expo_lo (2 * x) + 1) = 2 powi (expo_lo (2 * x)) * 2"
      by (simp add: power_int_add)
    show ?thesis unfolding e using ih a b by (simp add: field_simps)
  next
    case False
    then have "expo_lo (2 * x) = 0" by (subst expo_lo.simps) simp
    then have "expo_lo x = -1" unfolding e by simp
    then show ?thesis using False "1.prems" by (simp add: power_int_minus)
  qed
qed

lemma exponent_bounds:
  "0 < x \<Longrightarrow> 2 powi (exponent x) \<le> x \<and> x < 2 powi (exponent x + 1)"
  unfolding exponent_def using expo_hi_bounds[of x] expo_lo_bounds[of x]
  by (cases "1 \<le> x") auto


lemma fl_zero: "fl 0 = 0"
  unfolding fl_def by simp

lemma fl_pos_eq:
  "0 < x \<Longrightarrow> fl x = of_int (round_half_even (x / 2 powi (exponent x - 52))) * 2 powi (exponent x - 52)"
  unfolding fl_def Let_def by simp

lemma fl_binade:
  assumes "0 < x"
  shows "2 powi (exponent x) \<le> fl x \<and> fl x \<le> 2 powi (exponent x + 1)"
proof -
  define e where "e = exponent x"
  define u :: real where "u = 2 powi (e - 52)"
  have u: "0 < u" unfolding u_def by simp
  have "(2::real) powi (52 + (e - 52)) = 2 powi 52 * 2 powi (e - 52)"
    by (rule power_int_add) simp
  then have lo: "2 powi e = 2 ^ 52 * u" unfolding u_def by simp
  have "e + 1 = 53 + (e - 52)" by simp
  then have "(2::real) powi (e + 1) = 2 powi (53 + (e - 52))" by (rule arg_cong)
  also have "\<dots> = 2 powi 53 * 2 powi (e - 52)" by (rule power_int_add) simp
  finally have hi: "2 powi (e + 1) = 2 ^ 53 * u" unfolding u_def by simp
  note b = exponent_bounds[OF assms, folded e_def]
  have "of_int (2 ^ 52) \<le> x / u" using b u unfolding lo by (simp add: field_simps)
  then have r1: "2 ^ 52 \<le> round_half_even (x / u)" by (rule round_half_even_ge)
  have "x / u \<le> of_int (2 ^ 53)" using b u unfolding hi by (simp add: field_simps)
  then have r2: "round_half_even (x / u) \<le> 2 ^ 53" by (rule round_half_even_le)
  have f: "fl x = of_int (round_half_even (x / u)) * u"
    unfolding u_def e_def by (rule fl_pos_eq[OF assms])
  have "(2 ^ 52 :: real) \<le> of_int (round_half_even (x / u))" using r1
    by (metis of_int_le_iff of_int_numeral of_int_power)
  then have a1: "2 ^ 52 * u \<le> fl x" unfolding f using u by simp
  have "of_int (round_half_even (x / u)) \<le> (2 ^ 53 :: real)" using r2
    by (metis of_int_le_iff of_int_numeral of_int_power)
  then have a2: "fl x \<le> 2 ^ 53 * u" unfolding f using u by simp
  show ?thesis using a1 a2 unfolding e_def[symmetric] lo hi by simp
qed

lemma fl_nonneg: "0 \<le> x \<Longrightarrow> 0 \<le> fl x"
proof (cases "x = 0")
  case True
  then show ?thesis by (simp add: fl_zero)
next
  case False
  assume "0 \<le> x"
  then have p: "0 < x" using False by simp
  have "(0::real) \<le> 2 powi (exponent x)" by simp
  then show ?thesis using fl_binade[OF p] by linarith
qed

lemma fl_mono:
  assumes "0 \<le> x" "x \<le> y"
  shows "fl x \<le> fl y"
proof (cases "x = 0")
  case True
  then show ?thesis using fl_nonneg[of y] assms by (simp add: fl_zero)
next
  case False
  then have px: "0 < x" using assms by simp
  then have py: "0 < y" using assms by simp
  note bx = exponent_bounds[OF px]
  note by' = exponent_bounds[OF py]
  have "(2::real) powi (exponent x) < 2 powi (exponent y + 1)" using bx by' assms by linarith
  then have "\<not> exponent y + 1 \<le> exponent x"
    using power_int_increasing[of "exponent y + 1" "exponent x" "2::real"] by auto
  then have le: "exponent x \<le> exponent y" by simp
  show ?thesis
  proof (cases "exponent x = exponent y")
    case True
    define u :: real where "u = 2 powi (exponent y - 52)"
    have u: "0 < u" unfolding u_def by simp
    have "x / u \<le> y / u" using assms u by (simp add: divide_right_mono)
    then have "round_half_even (x / u) \<le> round_half_even (y / u)"
      by (rule round_half_even_mono)
    then have "real_of_int (round_half_even (x / u)) * u \<le> real_of_int (round_half_even (y / u)) * u"
      using u by simp
    then show ?thesis unfolding fl_pos_eq[OF px] fl_pos_eq[OF py] True u_def .
  next
    case False
    then have "exponent x + 1 \<le> exponent y" using le by simp
    then have "(2::real) powi (exponent x + 1) \<le> 2 powi (exponent y)"
      by (rule power_int_increasing) simp
    then show ?thesis using fl_binade[OF px] fl_binade[OF py] by linarith
  qed
qed

lemma length_sorted_reverse: "length (sorted_reverse key xs) = length xs"
  unfolding sorted_reverse_def by simp

lemma mset_sorted_reverse: "mset (sorted_reverse key xs) = mset xs"
  unfolding sorted_reverse_def by simp

lemma sorted_reverse_descending:
  "sorted_wrt (\<lambda>a b. key b \<le> key a) (sorted_reverse key xs)"
proof -
  have "sorted (map key (sort_key key (rev xs)))" by (rule sorted_sort_key)
  then have "sorted_wrt (\<lambda>a b. key a \<le> key b) (sort_key key (rev xs))"
    by (simp add: sorted_wrt_map)
  then show ?thesis unfolding sorted_reverse_def by (simp add: sorted_wrt_rev)
qed

subsection \<open>Role matching\<close>

lemma match_with_synonyms_subset: "match_with_synonyms syn required extracted \<subseteq> required"
  unfolding match_with_synonyms_def by auto

lemma card_matched_le:
  "finite required \<Longrightarrow> card (match_with_synonyms syn required extracted) \<le> card required"
  by (simp add: card_mono match_with_synonyms_subset)

lemma coverage_eq:
  assumes "finite required" "required \<noteq> {}"
  shows "calculate_coverage_score (match_with_synonyms syn required extracted) required
     = real (card (match_with_synonyms syn required extracted)) / real (card required)"
  using card_matched_le[OF assms(1), of syn extracted] assms(2)
  unfolding calculate_coverage_score_def Let_def by simp

lemma coverage_bounds:
  assumes "finite required"
  shows "0 \<le> calculate_coverage_score (match_with_synonyms syn required extracted) required * 100
    \<and> calculate_coverage_score (match_with_synonyms syn required extracted) required * 100 \<le> 100"
proof (cases "required = {}")
  case True
  then show ?thesis unfolding calculate_coverage_score_def by simp
next
  case False
  have c: "0 < card required" using False assms by (simp add: card_gt_0_iff)
  have le: "real (card (match_with_synonyms syn required extracted)) \<le> real (card required)"
    using card_matched_le[OF assms] by simp
  define q where
    "q = calculate_coverage_score (match_with_synonyms syn required extracted) required"
  have q: "q = real (card (match_with_synonyms syn required extracted)) / real (card required)"
    unfolding q_def by (rule coverage_eq[OF assms False])
  have "q \<le> 1" unfolding q using le c by (simp add: divide_le_eq_1)
  moreover have "0 \<le> q" unfolding q by simp
  ultimately have "0 \<le> q * 100 \<and> q * 100 \<le> 100" by simp
  then show ?thesis unfolding q_def .
qed

lemma role_calculate_match: "role (calculate_match syn n rd ex sd y c e) = n"
  unfolding calculate_match_def Let_def by simp

lemma breakdown_calculate_match:
  "breakdown (calculate_match syn n rd ex sd y c e) =
     \<lparr>b_technical_skills = round2 (calculate_coverage_score
          (match_with_synonyms syn (set (map lower (skills rd))) (set (map lower ex)))
          (set (map lower (skills rd))) * 100),
      b_tools = round2 (calculate_coverage_score
          (match_with_synonyms syn (set (map lower (tools rd))) (set (map lower ex)))
          (set (map lower (tools rd))) * 100),
      b_soft_skills = round2 (calculate_coverage_score
          (match_with_synonyms syn (set (map lower (soft_skills rd))) (set (map lower ex)))
          (set (map lower (soft_skills rd))) * 100),
      b_certifications = round2 (match_certifications c (set (map lower (certifications rd)))),
      b_experience = round2 (real_of_int (min (y * 10) 100))\<rparr>"
  unfolding calculate_match_def Let_def by simp

lemma rounded_coverage_bounds:
  "0 \<le> round2 (calculate_coverage_score
           (match_with_synonyms syn (set xs) extracted) (set xs) * 100)
   \<and> round2 (calculate_coverage_score
         (match_with_synonyms syn (set xs) extracted) (set xs) * 100) \<le> 100"
  using coverage_bounds[of "set xs" syn extracted] round2_bounds by simp

lemma match_with_synonyms_none_extracted: "match_with_synonyms syn required {} = {}"
  unfolding match_with_synonyms_def has_extracted_synonym_def is_synonym_of_extracted_def
  by (auto split: option.splits)

lemma coverage_none_matched: "required \<noteq> {} \<Longrightarrow> calculate_coverage_score {} required = 0"
  unfolding calculate_coverage_score_def by simp

lemma match_with_synonyms_sample:
  "match_with_synonyms SKILL_SYNONYMS {''javascript'', ''python''} {''js''} = {''javascript''}"
  by code_simp

text \<open>
  Claim C3. For every extracted skill list, experience, certifications and education,
  \<open>match_roles\<close> returns as many records as the catalog has roles, exactly one per role of
  the catalog (the role names of the result are those of the catalog, each as often), and
  the list is in non-increasing order of overall score.
\<close>

theorem match_roles_total_and_ranked:
  "length (match_roles syn roles ex sd y c e) = length roles
   \<and> mset (map role (match_roles syn roles ex sd y c e)) = mset (map fst roles)
   \<and> sorted_wrt (\<ge>) (map overall_score (match_roles syn roles ex sd y c e))"
proof -
  define results where "results =
    map (\<lambda>(role_name, rd). calculate_match syn role_name rd ex sd y
           (case c of None \<Rightarrow> [] | Some cs \<Rightarrow> cs) (case e of None \<Rightarrow> [] | Some es \<Rightarrow> es)) roles"
  have mr: "match_roles syn roles ex sd y c e = sorted_reverse overall_score results"
    unfolding match_roles_def results_def Let_def ..
  have len: "length results = length roles" unfolding results_def by simp
  have names: "map role results = map fst roles"
    unfolding results_def by (induction roles) (auto simp: role_calculate_match)
  have "mset (map role (sorted_reverse overall_score results)) = mset (map role results)"
    by (metis mset_map mset_sorted_reverse)
  then have m: "mset (map role (match_roles syn roles ex sd y c e)) = mset (map fst roles)"
    unfolding mr names .
  have s: "sorted_wrt (\<ge>) (map overall_score (match_roles syn roles ex sd y c e))"
    unfolding mr using sorted_reverse_descending[of overall_score results]
    by (simp add: sorted_wrt_map)
  show ?thesis using len m s unfolding mr by (simp add: length_sorted_reverse)
qed

theorem match_roles_total_and_ranked_witness:
  "length (match_roles SKILL_SYNONYMS sample_roles [''js'', ''Git'', ''excel''] () 3 None
      (None :: unit list option)) = 2
   \<and> mset (map role (match_roles SKILL_SYNONYMS sample_roles [''js'', ''Git'', ''excel''] () 3
        None (None :: unit list option)))
       = {#''Software Engineer'', ''Data Analyst''#}
   \<and> sorted_wrt (\<ge>) (map overall_score (match_roles SKILL_SYNONYMS sample_roles
        [''js'', ''Git'', ''excel''] () 3 None (None :: unit list option)))"
  using match_roles_total_and_ranked[of SKILL_SYNONYMS sample_roles
      "[''js'', ''Git'', ''excel'']" "()" 3 None "None :: unit list option"]
  by (simp add: sample_roles_def)

lemma score_keywords_no_skills: "fst (score_keywords text []) = 0"
  unfolding score_keywords_def Let_def by (simp add: split_def)

lemma ats_breakdown_keywords:
  "map_of (ats_breakdown (analyze_ats_score text sk secs verbs ms)) ''keywords''
     = Some (fst (score_keywords text sk))"
  unfolding analyze_ats_score_def Let_def by (simp add: case_prod_beta)

text \<open>
  Claim C4. With an empty list of extracted skills, the technical-skill coverage score of a
  role is 0 when the role requires a skill, its tool coverage score is 0 when the role
  requires a tool, and the keyword sub-score of the ATS analysis is 0.
\<close>

theorem no_skills_zero_coverage:
  "(skills rd \<noteq> [] \<longrightarrow>
      b_technical_skills (breakdown (calculate_match syn n rd [] sd y c e)) = 0)
   \<and> (tools rd \<noteq> [] \<longrightarrow> b_tools (breakdown (calculate_match syn n rd [] sd y c e)) = 0)
   \<and> fst (score_keywords text []) = 0
   \<and> map_of (ats_breakdown (analyze_ats_score text [] secs verbs ms)) ''keywords'' = Some 0"
  by (simp add: breakdown_calculate_match match_with_synonyms_none_extracted
      coverage_none_matched round2_zero score_keywords_no_skills ats_breakdown_keywords)

theorem no_skills_zero_coverage_witness:
  "skills software_engineer \<noteq> [] \<and> tools software_engineer \<noteq> []
   \<and> b_technical_skills (breakdown
        (calculate_match SKILL_SYNONYMS ''Software Engineer'' software_engineer [] () 5 [] ())) = 0
   \<and> b_tools (breakdown
        (calculate_match SKILL_SYNONYMS ''Software Engineer'' software_engineer [] () 5 [] ())) = 0
   \<and> fst (score_keywords ''plain text without any skill'' []) = 0"
  using no_skills_zero_coverage[of software_engineer SKILL_SYNONYMS "''Software Engineer''"
      "()" 5 "[]" "()" "''plain text without any skill''"]
  by (simp add: software_engineer_def)

text \<open>
  Claim C10. The set that the synonym-aware matching returns is a subset of the required
  set. So it never has more elements than the required set (the bonus branch of the
  coverage computation is not taken), the coverage score of a non-empty required set is
  the number of matched skills over the number of required ones, the coverage score times
  100 lies between 0 and 100, and so do the three coverage scores of a role match
  (technical skills, tools, soft skills).
\<close>

theorem matched_within_required:
  assumes "finite required"
  shows "match_with_synonyms syn required extracted \<subseteq> required
    \<and> \<not> card required < card (match_with_synonyms syn required extracted)
    \<and> (required \<noteq> {} \<longrightarrow>
         calculate_coverage_score (match_with_synonyms syn required extracted) required
           = real (card (match_with_synonyms syn required extracted)) / real (card required))
    \<and> 0 \<le> calculate_coverage_score (match_with_synonyms syn required extracted) required * 100
    \<and> calculate_coverage_score (match_with_synonyms syn required extracted) required * 100 \<le> 100
    \<and> 0 \<le> b_technical_skills (breakdown (calculate_match syn n rd ex sd y c e))
    \<and> b_technical_skills (breakdown (calculate_match syn n rd ex sd y c e)) \<le> 100
    \<and> 0 \<le> b_tools (breakdown (calculate_match syn n rd ex sd y c e))
    \<and> b_tools (breakdown (calculate_match syn n rd ex sd y c e)) \<le> 100
    \<and> 0 \<le> b_soft_skills (breakdown (calculate_match syn n rd ex sd y c e))
    \<and> b_soft_skills (breakdown (calculate_match syn n rd ex sd y c e)) \<le> 100"
  using match_with_synonyms_subset[of syn required extracted]
    card_matched_le[OF assms, of syn extracted]
    coverage_eq[OF assms, of syn extracted]
    coverage_bounds[OF assms, of syn extracted]
    rounded_coverage_bounds[of syn "map lower (skills rd)" "set (map lower ex)"]
    rounded_coverage_bounds[of syn "map lower (tools rd)" "set (map lower ex)"]
    rounded_coverage_bounds[of syn "map lower (soft_skills rd)" "set (map lower ex)"]
  by (simp add: not_less breakdown_calculate_match)

theorem matched_within_required_witness:
  "finite {''javascript'', ''python''} \<and> {''javascript'', ''python''} \<noteq> {}
    \<and> match_with_synonyms SKILL_SYNONYMS {''javascript'', ''python''} {''js''}
         \<subseteq> {''javascript'', ''python''}
    \<and> calculate_coverage_score
         (match_with_synonyms SKILL_SYNONYMS {''javascript'', ''python''} {''js''})
         {''javascript'', ''python''} = 1 / 2
    \<and> b_tools (breakdown (calculate_match SKILL_SYNONYMS ''Software Engineer''
          software_engineer [''js''] () 3 [] ())) \<le> 100"
proof -
  have f: "finite {''javascript'', ''python''}" by simp
  have ne: "{''javascript'', ''python''} \<noteq> ({} :: string set)" by simp
  have c: "real (card (match_with_synonyms SKILL_SYNONYMS {''javascript'', ''python''} {''js''}))
      / real (card {''javascript'', ''python''}) = 1 / 2"
    by (simp add: match_with_synonyms_sample)
  note t = matched_within_required[OF f, of SKILL_SYNONYMS "{''js''}" "''Software Engineer''"
      software_engineer "[''js'']" "()" 3 "[]" "()"]
  from t have s: "match_with_synonyms SKILL_SYNONYMS {''javascript'', ''python''} {''js''}
         \<subseteq> {''javascript'', ''python''}"
    by (rule conjunct1)
  from t ne have "calculate_coverage_score
         (match_with_synonyms SKILL_SYNONYMS {''javascript'', ''python''} {''js''})
         {''javascript'', ''python''} =
      real (card (match_with_synonyms SKILL_SYNONYMS {''javascript'', ''python''} {''js''}))
      / real (card {''javascript'', ''python''})"
    by blast
  then have v: "calculate_coverage_score
         (match_with_synonyms SKILL_SYNONYMS {''javascript'', ''python''} {''js''})
         {''javascript'', ''python''} = 1 / 2"
    using c by (rule trans)
  from t have b: "b_tools (breakdown (calculate_match SKILL_SYNONYMS ''Software Engineer''
          software_engineer [''js''] () 3 [] ())) \<le> 100"
    by blast
  show ?thesis using f ne s v b by blast
qed

subsection \<open>ATS scoring\<close>

lemma filter_three: "length (filter P [a, b, c]) \<le> 3"
  by simp

lemma score_sections_bounds:
  "0 \<le> fst (score_sections sections) \<and> fst (score_sections sections) \<le> 25"
proof -
  define r where "r = length (filter (section_present sections) required_sections)"
  define m where "m = length (filter (section_present sections) recommended_sections)"
  have r: "r \<le> 3" unfolding r_def required_sections_def by (rule filter_three)
  have m: "m \<le> 3" unfolding m_def recommended_sections_def by (rule filter_three)
  have s: "fst (score_sections sections) = real r / 3 * 15 + real m / 3 * 10"
    unfolding score_sections_def Let_def r_def m_def
    by (simp add: required_sections_def recommended_sections_def)
  have "real r \<le> 3" "real m \<le> 3" using r m by simp_all
  then show ?thesis unfolding s by simp
qed

lemma score_keywords_bounds:
  "0 \<le> fst (score_keywords text sk) \<and> fst (score_keywords text sk) \<le> 20"
  unfolding score_keywords_def Let_def by (simp add: case_prod_beta)

lemma score_action_verbs_bounds:
  "0 \<le> fst (score_action_verbs text vs) \<and> fst (score_action_verbs text vs) \<le> 15"
  unfolding score_action_verbs_def Let_def by (simp add: case_prod_beta)

lemma score_metrics_bounds:
  "0 \<le> fst (score_metrics ms text) \<and> fst (score_metrics ms text) \<le> 20"
proof -
  define q where "q = length (filter id
     [list_ex (\<lambda>m. contains (metric m) ''%'') ms,
      list_ex (\<lambda>m. search (Many 2 None (In digits)) (metric m)) ms,
      list_ex (\<lambda>m. contains (metric m) ''$'') ms])"
  define s1 :: real where "s1 =
     (if 8 \<le> length ms then 15 else if 5 \<le> length ms then 10
      else if 3 \<le> length ms then 6 else if 1 \<le> length ms then 3 else 0)"
  have q: "q \<le> 3" unfolding q_def by (rule filter_three)
  have s: "fst (score_metrics ms text) = s1 + real q / 3 * 5"
    unfolding score_metrics_def Let_def q_def s1_def by (simp add: case_prod_beta)
  have s1: "0 \<le> s1 \<and> s1 \<le> 15" unfolding s1_def by simp
  have "real q \<le> 3" using q by simp
  then show ?thesis unfolding s using s1 by simp
qed

lemma score_formatting_bounds:
  "0 \<le> fst (score_formatting text) \<and> fst (score_formatting text) \<le> 10"
  unfolding score_formatting_def Let_def by (simp add: case_prod_beta)

lemma score_contact_info_bounds:
  "0 \<le> fst (score_contact_info text) \<and> fst (score_contact_info text) \<le> 10"
  unfolding score_contact_info_def Let_def by (simp add: case_prod_beta)

lemma ats_breakdown_eq:
  "ats_breakdown (analyze_ats_score text sk secs vs ms) =
     [(''sections'', fst (score_sections secs)),
      (''keywords'', fst (score_keywords text sk)),
      (''action_verbs'', fst (score_action_verbs text vs)),
      (''metrics'', fst (score_metrics ms text)),
      (''formatting'', fst (score_formatting text)),
      (''contact'', fst (score_contact_info text))]"
  unfolding analyze_ats_score_def Let_def by (simp add: case_prod_beta)

lemma ats_overall_eq:
  "ats_overall_score (analyze_ats_score text sk secs vs ms) =
     round2 (sum_list (map snd (ats_breakdown (analyze_ats_score text sk secs vs ms))))"
  unfolding analyze_ats_score_def Let_def by (simp add: case_prod_beta)

text \<open>
  Claim C1 (as amended). For every input of the ATS analysis, the breakdown holds the six
  sub-scores, each at most its maximum (sections 25, keywords 20, action verbs 15, metrics
  20, formatting 10, contact 10); the overall score is their unweighted sum rounded to two
  decimals, and it never exceeds 100.
\<close>

theorem ats_scores_bounded:
  "ats_breakdown (analyze_ats_score text sk secs vs ms) =
     [(''sections'', fst (score_sections secs)),
      (''keywords'', fst (score_keywords text sk)),
      (''action_verbs'', fst (score_action_verbs text vs)),
      (''metrics'', fst (score_metrics ms text)),
      (''formatting'', fst (score_formatting text)),
      (''contact'', fst (score_contact_info text))]
   \<and> fst (score_sections secs) \<le> 25
   \<and> fst (score_keywords text sk) \<le> 20
   \<and> fst (score_action_verbs text vs) \<le> 15
   \<and> fst (score_metrics ms text) \<le> 20
   \<and> fst (score_formatting text) \<le> 10
   \<and> fst (score_contact_info text) \<le> 10
   \<and> ats_overall_score (analyze_ats_score text sk secs vs ms) =
       round2 (fst (score_sections secs) + fst (score_keywords text sk)
         + fst (score_action_verbs text vs) + fst (score_metrics ms text)
         + fst (score_formatting text) + fst (score_contact_info text))
   \<and> ats_overall_score (analyze_ats_score text sk secs vs ms) \<le> 100"
proof -
  define total where "total = fst (score_sections secs) + fst (score_keywords text sk)
         + fst (score_action_verbs text vs) + fst (score_metrics ms text)
         + fst (score_formatting text) + fst (score_contact_info text)"
  have o: "ats_overall_score (analyze_ats_score text sk secs vs ms) = round2 total"
    unfolding total_def ats_overall_eq ats_breakdown_eq by (simp add: add.assoc)
  have "0 \<le> total \<and> total \<le> 100"
    unfolding total_def
    using score_sections_bounds[of secs] score_keywords_bounds[of "text" sk]
      score_action_verbs_bounds[of "text" vs] score_metrics_bounds[of ms "text"]
      score_formatting_bounds[of "text"] score_contact_info_bounds[of "text"]
    by linarith
  then have "round2 total \<le> 100" using round2_bounds by blast
  then show ?thesis
    using o score_sections_bounds[of secs] score_keywords_bounds[of "text" sk]
      score_action_verbs_bounds[of "text" vs] score_metrics_bounds[of ms "text"]
      score_formatting_bounds[of "text"] score_contact_info_bounds[of "text"]
    unfolding total_def by (simp add: ats_breakdown_eq)
qed

theorem ats_scores_bounded_witness:
  "fst (score_sections [''summary'' \<mapsto> True]) \<le> 25
   \<and> ats_overall_score (analyze_ats_score [] [] [''summary'' \<mapsto> True] [] [])
       = round2 (fst (score_sections [''summary'' \<mapsto> True]) + fst (score_keywords [] [])
           + fst (score_action_verbs [] []) + fst (score_metrics [] [])
           + fst (score_formatting []) + fst (score_contact_info []))
   \<and> ats_overall_score (analyze_ats_score [] [] [''summary'' \<mapsto> True] [] []) \<le> 100"
  using ats_scores_bounded[of "[]" "[]" "[''summary'' \<mapsto> True]" "[]" "[]"]
  by blast

text \<open>
  The claim as stated fails where the sum is not a multiple of 0.01: with only the summary
  section present and nothing else, the six sub-scores add up to 10/3 and the overall
  score is 3.33.
\<close>

lemma ats_summary_only:
  "analyze_ats_score [] [] [''summary'' \<mapsto> True] [] [] =
     \<lparr>ats_overall_score = 333 / 100, ats_grade = ''D'',
      ats_feedback = ''Critical issues detected. Complete restructuring recommended.'',
      ats_breakdown =
        [(''sections'', 10 / 3), (''keywords'', 0), (''action_verbs'', 0),
         (''metrics'', 0), (''formatting'', 0), (''contact'', 0)],
      ats_suggestions =
        [Add_Required_Section ''experience'',
         Add_Required_Section ''education'', Add_Required_Section ''skills'',
         Add_Recommended_Section ''projects'',
         Add_Recommended_Section ''certifications'',
         Add_More_Technical_Skills, Add_N_More_Skills 8,
         Use_More_Diverse_Verbs, Start_Bullets_With_Verbs,
         Example_Strong_Verbs, Add_Quantifiable_Metrics, Add_Numbers,
         Include_Percentages, Metrics_Example, Resume_Too_Short],
      ats_strengths = [Keep_Working],
      ats_priority_improvements =
        [Urgent ''sections'' (40 / 3), Urgent ''keywords'' 0,
         Urgent ''action_verbs'' 0, Urgent ''metrics'' 0,
         Urgent ''formatting'' 0]\<rparr>"
  by code_simp

theorem ats_overall_not_plain_sum:
  "ats_overall_score (analyze_ats_score [] [] [''summary'' \<mapsto> True] [] [])
     \<noteq> sum_list (map snd (ats_breakdown (analyze_ats_score [] [] [''summary'' \<mapsto> True] [] [])))"
  unfolding ats_summary_only by simp

lemma snd_score_action_verbs:
  "snd (score_action_verbs t vs) =
     (if 3 \<le> length vs then [] else [Use_More_Diverse_Verbs])
     @ (if 5 \<le> sum_list (map verb_count vs) then [] else [Start_Bullets_With_Verbs])
     @ map Replace_Weak_Phrase (filter (\<lambda>phrase. contains (lower t) phrase) weak_phrases)
     @ (if length vs < 8 then [Example_Strong_Verbs] else [])"
  unfolding score_action_verbs_def Let_def by (simp add: case_prod_beta)

lemma filter_weak_map: "filter is_weak_phrase_suggestion (map Replace_Weak_Phrase ps) = map Replace_Weak_Phrase ps"
  by (induction ps) auto

text \<open>
  Claim C8 (as amended). The action-verb scorer looks for the three weak phrases in the
  lower-cased text and emits one replacement suggestion for each weak phrase that occurs
  in it, however often it occurs: at most three suggestions, in the order of the phrases.
\<close>

theorem weak_phrase_suggestions:
  "filter is_weak_phrase_suggestion (snd (score_action_verbs t vs))
     = map Replace_Weak_Phrase (filter (\<lambda>phrase. contains (lower t) phrase) weak_phrases)
   \<and> length (filter is_weak_phrase_suggestion (snd (score_action_verbs t vs))) \<le> 3"
proof -
  have a: "filter is_weak_phrase_suggestion (snd (score_action_verbs t vs))
     = map Replace_Weak_Phrase (filter (\<lambda>phrase. contains (lower t) phrase) weak_phrases)"
    unfolding snd_score_action_verbs by (simp add: filter_weak_map)
  have "length (filter (\<lambda>phrase. contains (lower t) phrase) weak_phrases) \<le> 3"
    unfolding weak_phrases_def by (rule filter_three)
  then show ?thesis unfolding a by simp
qed

lemma lower_twice_responsible:
  "lower ''Responsible for builds. Responsible for tests.''
     = ''responsible for builds. responsible for tests.''"
  by code_simp

lemma occurrences_twice_responsible:
  "map (occurrences ''responsible for builds. responsible for tests.'') weak_phrases
     = [2, 0, 0]"
  by code_simp

lemma weak_phrases_twice_responsible:
  "filter (\<lambda>phrase. contains ''responsible for builds. responsible for tests.'' phrase)
     weak_phrases = [''responsible for'']"
  by code_simp

theorem weak_phrase_suggestions_witness:
  "filter is_weak_phrase_suggestion
      (snd (score_action_verbs ''Responsible for builds. Responsible for tests.'' []))
    = [Replace_Weak_Phrase ''responsible for'']"
  using weak_phrase_suggestions[of "''Responsible for builds. Responsible for tests.''" "[]"]
  unfolding lower_twice_responsible weak_phrases_twice_responsible by simp

text \<open>
  The claim as stated fails on a text with a weak phrase twice: two occurrences, one
  suggestion.
\<close>

lemma suggestions_twice_responsible:
  "snd (score_action_verbs ''Responsible for builds. Responsible for tests.'' []) =
     [Use_More_Diverse_Verbs, Start_Bullets_With_Verbs,
      Replace_Weak_Phrase ''responsible for'', Example_Strong_Verbs]"
  by code_simp

theorem weak_phrase_twice_one_suggestion:
  "length (filter is_weak_phrase_suggestion
      (snd (score_action_verbs ''Responsible for builds. Responsible for tests.'' []))) = 1
   \<and> sum_list (map (occurrences (lower ''Responsible for builds. Responsible for tests.''))
        weak_phrases) = 2
   \<and> length (filter is_weak_phrase_suggestion
      (snd (score_action_verbs ''Responsible for builds. Responsible for tests.'' [])))
     \<noteq> sum_list (map (occurrences (lower ''Responsible for builds. Responsible for tests.''))
        weak_phrases)"
  unfolding suggestions_twice_responsible lower_twice_responsible occurrences_twice_responsible
  by simp

subsection \<open>The health score\<close>

lemma health_eq:
  "calculate_health_score a s v m secs
     = round2 (health_formula a s v m (required_sections_present secs))"
  unfolding calculate_health_score_def health_formula_def required_sections_present_def Let_def
  by (simp add: required_sections_def algebra_simps)

lemma health_formula_bounds:
  assumes "0 \<le> a" "a \<le> 100" "0 \<le> s" "0 \<le> v" "0 \<le> m" "k \<le> 3"
  shows "0 \<le> health_formula a s v m k \<and> health_formula a s v m k \<le> 100"
proof -
  define x where "x = min (real_of_int s / 15) 1"
  define y where "y = min (real_of_int v / 10) 1"
  define z where "z = min (real_of_int m / 5) 1"
  have x: "0 \<le> x \<and> x \<le> 1" unfolding x_def using assms by simp
  have y: "0 \<le> y \<and> y \<le> 1" unfolding y_def using assms by simp
  have z: "0 \<le> z \<and> z \<le> 1" unfolding z_def using assms by simp
  have k: "real k \<le> 3" using assms by simp
  have "health_formula a s v m k = 40 / 100 * (a / 100) * 100 + 25 / 100 * x * 100
     + 10 / 100 * y * 100 + 10 / 100 * z * 100 + 15 / 100 * (real k / 3) * 100"
    unfolding health_formula_def x_def y_def z_def ..
  then show ?thesis using x y z k assms(1,2) by simp
qed

text \<open>
  Claim C2 (as amended). The health score is the formula of the specification, with the
  number of required sections that are present, rounded to two decimals; for an ATS score
  between 0 and 100 and non-negative counts of skills, verbs and metrics it lies between 0
  and 100.
\<close>

theorem health_score_formula_and_range:
  assumes "0 \<le> ats_score" "ats_score \<le> 100" "0 \<le> skill_count" "0 \<le> n_verbs" "0 \<le> n_metrics"
  shows "calculate_health_score ats_score skill_count n_verbs n_metrics sections
       = round2 (health_formula ats_score skill_count n_verbs n_metrics
           (required_sections_present sections))
    \<and> 0 \<le> calculate_health_score ats_score skill_count n_verbs n_metrics sections
    \<and> calculate_health_score ats_score skill_count n_verbs n_metrics sections \<le> 100"
proof -
  have "required_sections_present sections \<le> 3"
    unfolding required_sections_present_def required_sections_def by (rule filter_three)
  from health_formula_bounds[OF assms this] round2_bounds
  show ?thesis unfolding health_eq by blast
qed

theorem health_score_formula_and_range_witness:
  "(0 :: real) \<le> 875 / 10 \<and> (875 / 10 :: real) \<le> 100
   \<and> (0 :: int) \<le> 12 \<and> (0 :: int) \<le> 7 \<and> (0 :: int) \<le> 3
   \<and> calculate_health_score (875 / 10) 12 7 3 [''experience'' \<mapsto> True, ''skills'' \<mapsto> True]
       = round2 (health_formula (875 / 10) 12 7 3
           (required_sections_present [''experience'' \<mapsto> True, ''skills'' \<mapsto> True]))
   \<and> 0 \<le> calculate_health_score (875 / 10) 12 7 3
         [''experience'' \<mapsto> True, ''skills'' \<mapsto> True]
   \<and> calculate_health_score (875 / 10) 12 7 3
         [''experience'' \<mapsto> True, ''skills'' \<mapsto> True] \<le> 100"
  using health_score_formula_and_range[of "875 / 10" 12 7 3
      "[''experience'' \<mapsto> True, ''skills'' \<mapsto> True]"]
  by simp

text \<open>
  The claim as stated fails where the formula is not a multiple of 0.01: for an ATS score
  of 3.33 and nothing else, the formula gives 1.332 and the health score is 1.33.
\<close>

lemma health_score_low: "calculate_health_score (333 / 100) 0 0 0 Map.empty = 133 / 100"
  by code_simp

lemma health_formula_low:
  "health_formula (333 / 100) 0 0 0 (required_sections_present Map.empty) = 1332 / 1000"
  by code_simp

theorem health_score_not_plain_formula:
  "calculate_health_score (333 / 100) 0 0 0 Map.empty
     \<noteq> health_formula (333 / 100) 0 0 0 (required_sections_present Map.empty)"
  unfolding health_score_low health_formula_low by simp

subsection \<open>Job-description matching\<close>

lemma float_literals:
  "fl 1 = 1 \<and> fl 100 = 100 \<and> fl (100 * fl (6 / 10)) = 60 \<and> fl (100 * fl (4 / 10)) = 40
   \<and> 0 \<le> fl (6 / 10) \<and> 0 \<le> fl (4 / 10)"
  by code_simp

lemma match_score_bounds:
  assumes "finite total_set" "matched_set \<subseteq> total_set"
  shows "0 \<le> calculate_match_score matched_set total_set
     \<and> calculate_match_score matched_set total_set \<le> 100"
proof (cases "total_set = {}")
  case True
  then show ?thesis unfolding calculate_match_score_def by simp
next
  case False
  define q where "q = real (card matched_set) / real (card total_set)"
  have c: "0 < card total_set" using False assms by (simp add: card_gt_0_iff)
  have "card matched_set \<le> card total_set" using assms by (simp add: card_mono)
  then have "real (card matched_set) \<le> real (card total_set)" by simp
  then have q1: "q \<le> 1" unfolding q_def using c by (simp add: divide_le_eq_1)
  have q0: "0 \<le> q" unfolding q_def by simp
  have f0: "0 \<le> fl q" using q0 by (rule fl_nonneg)
  have "fl q \<le> fl 1" using q0 q1 by (rule fl_mono)
  then have f1: "fl q \<le> 1" using float_literals by simp
  have m0: "0 \<le> fl (fl q * 100)" using f0 by (intro fl_nonneg) simp
  have "fl (fl q * 100) \<le> fl 100" using f0 f1 by (intro fl_mono) simp_all
  then have m1: "fl (fl q * 100) \<le> 100" using float_literals by simp
  show ?thesis
    using False m0 m1
    unfolding calculate_match_score_def float_mul_def float_div_def q_def by simp
qed

lemma weighted_sum_bounds:
  assumes "0 \<le> k" "k \<le> 100" "0 \<le> s" "s \<le> 100"
  shows "0 \<le> float_add (float_mul k (fl (6 / 10))) (float_mul s (fl (4 / 10)))
    \<and> float_add (float_mul k (fl (6 / 10))) (float_mul s (fl (4 / 10))) \<le> 100"
proof -
  define a where "a = fl (6 / 10)"
  define b where "b = fl (4 / 10)"
  have a: "0 \<le> a" and b: "0 \<le> b" unfolding a_def b_def using float_literals by simp_all
  have ka0: "0 \<le> k * a" using assms a by simp
  have "k * a \<le> 100 * a" using assms a by (simp add: mult_right_mono)
  then have "fl (k * a) \<le> fl (100 * a)" using ka0 by (rule fl_mono[rotated])
  then have x1: "fl (k * a) \<le> 60" unfolding a_def using float_literals by simp
  have x0: "0 \<le> fl (k * a)" using ka0 by (rule fl_nonneg)
  have sb0: "0 \<le> s * b" using assms b by simp
  have "s * b \<le> 100 * b" using assms b by (simp add: mult_right_mono)
  then have "fl (s * b) \<le> fl (100 * b)" using sb0 by (rule fl_mono[rotated])
  then have y1: "fl (s * b) \<le> 40" unfolding b_def using float_literals by simp
  have y0: "0 \<le> fl (s * b)" using sb0 by (rule fl_nonneg)
  have z0: "0 \<le> fl (fl (k * a) + fl (s * b))" using x0 y0 by (intro fl_nonneg) simp
  have "fl (fl (k * a) + fl (s * b)) \<le> fl 100" using x0 y0 x1 y1 by (intro fl_mono) simp_all
  then have z1: "fl (fl (k * a) + fl (s * b)) \<le> 100" using float_literals by simp
  show ?thesis using z0 z1 unfolding float_add_def float_mul_def a_def b_def by simp
qed

lemma finite_extract_keywords: "finite (extract_keywords t)"
  unfolding extract_keywords_def Let_def by simp

lemma finite_extract_jd_skills: "finite (extract_jd_skills t)"
  unfolding extract_jd_skills_def Let_def by simp

lemma analyze_jd_match_absent: "analyze_jd_match resume_text None sk = No_Job_Description"
  unfolding analyze_jd_match_def by simp

lemma analyze_jd_match_short:
  "len (strip t) < 30 \<Longrightarrow> analyze_jd_match resume_text (Some t) sk = No_Job_Description"
  unfolding analyze_jd_match_def by simp

lemma strip_Nil: "strip [] = []"
  by code_simp

lemma analyze_jd_match_scored:
  assumes "30 \<le> len (strip t)"
  shows "jd_match_score (analyze_jd_match resume_text (Some t) sk)
     = Some (round2
          (float_add
             (float_mul
                (calculate_match_score (extract_keywords resume_text \<inter> extract_keywords t)
                   (extract_keywords t))
                (fl (6 / 10)))
             (float_mul
                (calculate_match_score (set sk \<inter> extract_jd_skills t) (extract_jd_skills t))
                (fl (4 / 10)))))"
proof -
  have "t \<noteq> []"
  proof
    assume "t = []"
    then have "len (strip t) = 0" by (simp add: strip_Nil len_def)
    then show False using assms by simp
  qed
  then show ?thesis using assms
    unfolding analyze_jd_match_def Let_def by simp
qed

lemma jd_scores_bounds:
  "0 \<le> calculate_match_score (extract_keywords r \<inter> extract_keywords t) (extract_keywords t)
   \<and> calculate_match_score (extract_keywords r \<inter> extract_keywords t) (extract_keywords t)
       \<le> 100
   \<and> 0 \<le> calculate_match_score (set sk \<inter> extract_jd_skills t) (extract_jd_skills t)
   \<and> calculate_match_score (set sk \<inter> extract_jd_skills t) (extract_jd_skills t) \<le> 100"
  using match_score_bounds[OF finite_extract_keywords,
      of "extract_keywords r \<inter> extract_keywords t" t]
    match_score_bounds[OF finite_extract_jd_skills, of "set sk \<inter> extract_jd_skills t" t]
  by simp

text \<open>
  Claim C5 (as amended). \<open>analyze_jd_match\<close> returns the sentinel when the job description
  is absent or has fewer than 30 characters once the white space at its ends is removed.
  For a job description of 30 or more such characters the match score is
  0.6 * keyword score + 0.4 * skill score, evaluated in double-precision arithmetic and
  rounded to two decimals, and lies between 0 and 100; each component score is
  (matched / total) * 100 in double-precision arithmetic, and 100 when the total set is
  empty.
\<close>

theorem jd_match_sentinel_and_score:
  "analyze_jd_match resume_text None sk = No_Job_Description
   \<and> (len (strip t) < 30 \<longrightarrow> analyze_jd_match resume_text (Some t) sk = No_Job_Description)
   \<and> (30 \<le> len (strip t) \<longrightarrow>
        jd_match_score (analyze_jd_match resume_text (Some t) sk)
          = Some (round2
              (float_add
                 (float_mul
                    (calculate_match_score
                       (extract_keywords resume_text \<inter> extract_keywords t) (extract_keywords t))
                    (fl (6 / 10)))
                 (float_mul
                    (calculate_match_score
                       (set sk \<inter> extract_jd_skills t) (extract_jd_skills t))
                    (fl (4 / 10)))))
        \<and> 0 \<le> round2
              (float_add
                 (float_mul
                    (calculate_match_score
                       (extract_keywords resume_text \<inter> extract_keywords t) (extract_keywords t))
                    (fl (6 / 10)))
                 (float_mul
                    (calculate_match_score
                       (set sk \<inter> extract_jd_skills t) (extract_jd_skills t))
                    (fl (4 / 10))))
        \<and> round2
              (float_add
                 (float_mul
                    (calculate_match_score
                       (extract_keywords resume_text \<inter> extract_keywords t) (extract_keywords t))
                    (fl (6 / 10)))
                 (float_mul
                    (calculate_match_score
                       (set sk \<inter> extract_jd_skills t) (extract_jd_skills t))
                    (fl (4 / 10)))) \<le> 100)
   \<and> calculate_match_score matched_set total_set
          = (if total_set = {} then 100
             else float_mul (float_div (real (card matched_set)) (real (card total_set))) 100)"
proof -
  define ks where "ks = calculate_match_score
      (extract_keywords resume_text \<inter> extract_keywords t) (extract_keywords t)"
  define ss where "ss = calculate_match_score
      (set sk \<inter> extract_jd_skills t) (extract_jd_skills t)"
  define overall where
    "overall = float_add (float_mul ks (fl (6 / 10))) (float_mul ss (fl (4 / 10)))"
  have a: "analyze_jd_match resume_text None sk = No_Job_Description"
    by (rule analyze_jd_match_absent)
  have b: "len (strip t) < 30 \<longrightarrow>
      analyze_jd_match resume_text (Some t) sk = No_Job_Description"
    using analyze_jd_match_short by blast
  have c: "jd_match_score (analyze_jd_match resume_text (Some t) sk) = Some (round2 overall)"
    if "30 \<le> len (strip t)"
    using analyze_jd_match_scored[OF that, of resume_text sk]
    unfolding ks_def ss_def overall_def .
  have "0 \<le> ks \<and> ks \<le> 100 \<and> 0 \<le> ss \<and> ss \<le> 100"
    unfolding ks_def ss_def by (rule jd_scores_bounds)
  then have "0 \<le> overall \<and> overall \<le> 100"
    unfolding overall_def using weighted_sum_bounds by blast
  then have d: "0 \<le> round2 overall \<and> round2 overall \<le> 100"
    using round2_bounds by blast
  have e: "calculate_match_score matched_set total_set
          = (if total_set = {} then 100
             else float_mul (float_div (real (card matched_set)) (real (card total_set))) 100)"
    unfolding calculate_match_score_def by simp
  show ?thesis using a b c d e unfolding overall_def ks_def ss_def by blast
qed

lemma jd_lengths:
  "len (strip accented_jd) = 29 \<and> length accented_jd = 32
   \<and> len (strip ''seeking motivated candidate strong writing editing teaching'') = 59"
  by code_simp

lemma jd_run: "jd_match_score (analyze_jd_match ''I enjoy teaching''
   (Some ''seeking motivated candidate strong writing editing teaching'') []) = Some (4857 / 100)"
  by code_simp

theorem jd_match_sentinel_and_score_witness:
  "len (strip accented_jd) < 30
   \<and> analyze_jd_match ''I enjoy teaching'' (Some accented_jd) [] = No_Job_Description
   \<and> 30 \<le> len (strip ''seeking motivated candidate strong writing editing teaching'')
   \<and> jd_match_score (analyze_jd_match ''I enjoy teaching''
         (Some ''seeking motivated candidate strong writing editing teaching'') [])
       = Some (round2
           (float_add
              (float_mul
                 (calculate_match_score
                    (extract_keywords ''I enjoy teaching''
                       \<inter> extract_keywords
                           ''seeking motivated candidate strong writing editing teaching'')
                    (extract_keywords
                       ''seeking motivated candidate strong writing editing teaching''))
                 (fl (6 / 10)))
              (float_mul
                 (calculate_match_score
                    (set [] \<inter> extract_jd_skills
                       ''seeking motivated candidate strong writing editing teaching'')
                    (extract_jd_skills
                       ''seeking motivated candidate strong writing editing teaching''))
                 (fl (4 / 10)))))"
  using jd_match_sentinel_and_score[of "''I enjoy teaching''" "[]" accented_jd]
    jd_match_sentinel_and_score[of "''I enjoy teaching''" "[]"
      "''seeking motivated candidate strong writing editing teaching''"]
    jd_lengths
  by simp

text \<open>
  The claim as stated fails where the weighted sum is not a multiple of 0.01: a resume
  that shares one of the seven keywords of the job description, with no skill required,
  has the weighted sum 340/7 by the formula of the specification and the match score
  48.57.
\<close>

lemma jd_formula:
  "jd_score_formula ''I enjoy teaching''
     ''seeking motivated candidate strong writing editing teaching'' [] = 340 / 7"
  by code_simp

theorem jd_match_score_not_plain_formula:
  "jd_match_score (analyze_jd_match ''I enjoy teaching''
       (Some ''seeking motivated candidate strong writing editing teaching'') [])
   \<noteq> Some (jd_score_formula ''I enjoy teaching''
        ''seeking motivated candidate strong writing editing teaching'' [])"
  unfolding jd_run jd_formula by simp

text \<open>One of 32 keywords and 9 of 25 skills: the exact weighted sum is 16.275, the sum of
  the doubles lies below it, and the match score is 16.27.\<close>

lemma tie_example:
  "round2 (float_add (float_mul (float_mul (float_div 1 32) 100) (fl (6 / 10)))
      (float_mul (float_mul (float_div 9 25) 100) (fl (4 / 10)))) = 1627 / 100"
  by code_simp

subsection \<open>Skill extraction\<close>

lemma map_fst_add_mention:
  "set (map fst (add_mention n c found)) = insert n (set (map fst found))"
proof (induction found)
  case Nil
  show ?case by simp
next
  case (Cons a found)
  obtain k d where a: "a = (k, d)" by (cases a)
  show ?case
  proof (cases "k = n")
    case True
    then show ?thesis unfolding a by simp
  next
    case False
    have "set (map fst (add_mention n c ((k, d) # found)))
        = insert k (set (map fst (add_mention n c found)))"
      using False by simp
    then show ?thesis unfolding a Cons.IH by auto
  qed
qed

lemma keys_add_mention:
  "fst ` set (add_mention n c found) = insert n (fst ` set found)"
  using map_fst_add_mention[of n c found] by simp

lemma distinct_add_mention:
  "distinct (map fst found) \<Longrightarrow> distinct (map fst (add_mention n c found))"
proof (induction found)
  case Nil
  then show ?case by simp
next
  case (Cons a found)
  obtain k d where a: "a = (k, d)" by (cases a)
  show ?case
  proof (cases "k = n")
    case True
    then show ?thesis using Cons a by simp
  next
    case False
    have "k \<notin> fst ` set (add_mention n c found)"
      unfolding keys_add_mention using False Cons.prems a by auto
    then show ?thesis using Cons a False by simp
  qed
qed

lemma count_add_mention:
  "count_of (add_mention n c found) k = count_of found k + (if n = k then 1 else 0)"
  unfolding count_of_def by (induction found) auto

lemma contexts_add_mention:
  "\<forall>(k, d) \<in> set found. length (sd_contexts d) \<le> 3
   \<Longrightarrow> \<forall>(k, d) \<in> set (add_mention n c found). length (sd_contexts d) \<le> 3"
  by (induction found) (auto split: if_splits)

lemma well_formed_add_mention: "well_formed found \<Longrightarrow> well_formed (add_mention n c found)"
  unfolding well_formed_def using distinct_add_mention contexts_add_mention by blast

lemma fold_mentions:
  "well_formed found \<Longrightarrow>
   well_formed (fold (\<lambda>(a, b, g). add_mention n (f a b)) ms found)
   \<and> count_of (fold (\<lambda>(a, b, g). add_mention n (f a b)) ms found) k
       = count_of found k + (if n = k then length ms else 0)
   \<and> fst ` set (fold (\<lambda>(a, b, g). add_mention n (f a b)) ms found)
       = fst ` set found \<union> (if ms = [] then {} else {n})"
proof (induction ms arbitrary: found)
  case Nil
  then show ?case by simp
next
  case (Cons m ms)
  obtain a b g where m: "m = (a, b, g)" by (cases m)
  have w: "well_formed (add_mention n (f a b) found)"
    using Cons.prems by (rule well_formed_add_mention)
  show ?case
    using Cons.IH[OF w] unfolding m
    by (auto simp: count_add_mention keys_add_mention)
qed

lemma record_matches_props:
  assumes "well_formed found"
  shows "well_formed (record_matches syn text sp found)
   \<and> count_of (record_matches syn text sp found) k
       = count_of found k + (if normalize_skill syn (fst sp) = k
                             then length (finditer (snd sp) (lower text)) else 0)
   \<and> fst ` set (record_matches syn text sp found)
       = fst ` set found \<union> (if finditer (snd sp) (lower text) = [] then {}
                             else {normalize_skill syn (fst sp)})"
  unfolding record_matches_def
  using fold_mentions[OF assms, of "normalize_skill syn (fst sp)" "context_window text"
      "finditer (snd sp) (lower text)" k]
  by simp

lemma fold_record_matches:
  "well_formed found \<Longrightarrow>
   well_formed (fold (record_matches syn text) ps found)
   \<and> count_of (fold (record_matches syn text) ps found) k
       = count_of found k + mention_count syn ps text k
   \<and> fst ` set (fold (record_matches syn text) ps found)
       = fst ` set found
         \<union> {normalize_skill syn (fst sp) | sp. sp \<in> set ps \<and> finditer (snd sp) (lower text) \<noteq> []}"
proof (induction ps arbitrary: found)
  case Nil
  then show ?case by (simp add: mention_count_def)
next
  case (Cons p ps)
  obtain a b where p: "p = (a, b)" by (cases p)
  note r = record_matches_props[OF Cons.prems, of syn "text" p k]
  from r have w: "well_formed (record_matches syn text p found)" by blast
  have c: "count_of (fold (record_matches syn text) (p # ps) found) k
       = count_of found k + mention_count syn (p # ps) text k"
    using Cons.IH[OF w] r by (simp add: mention_count_def)
  have s: "fst ` set (fold (record_matches syn text) (p # ps) found)
       = fst ` set found
         \<union> {normalize_skill syn (fst sp) | sp.
              sp \<in> set (p # ps) \<and> finditer (snd sp) (lower text) \<noteq> []}"
    using Cons.IH[OF w] r unfolding p by (auto split: if_splits)
  show ?case using Cons.IH[OF w] c s by simp
qed

lemma well_formed_Nil: "well_formed []"
  unfolding well_formed_def by simp

lemma count_of_member:
  assumes "well_formed found" "(k, d) \<in> set found"
  shows "count_of found k = sd_count d"
proof -
  have "map_of found k = Some d" using assms unfolding well_formed_def by simp
  then show ?thesis unfolding count_of_def by simp
qed

lemma set_sorted_reverse: "set (sorted_reverse key xs) = set xs"
  unfolding sorted_reverse_def by simp

lemma skill_details_eq:
  "skill_details (extract_skills syn ps t) =
     sorted_reverse (\<lambda>(skill, d). (sd_confidence d, sd_count d))
       (map (\<lambda>(skill, d). (skill, d\<lparr>sd_confidence := skill_confidence d\<rparr>))
          (fold (record_matches syn t) ps []))"
  unfolding extract_skills_def Let_def by simp

lemma skill_list_eq:
  "set (skill_list (extract_skills syn ps t)) = fst ` set (fold (record_matches syn t) ps [])"
  unfolding extract_skills_def Let_def by (force simp: set_sorted_reverse)

lemma skill_details_member:
  assumes "(skill, d) \<in> set (skill_details (extract_skills syn ps t))"
  shows "\<exists>d0. (skill, d0) \<in> set (fold (record_matches syn t) ps [])
     \<and> d = d0\<lparr>sd_confidence := skill_confidence d0\<rparr>"
  using assms unfolding skill_details_eq set_sorted_reverse by auto

lemma skill_confidence_range: "0 \<le> skill_confidence d \<and> skill_confidence d \<le> 1"
  unfolding skill_confidence_def section_boost_def Let_def by simp

lemma skill_confidence_formula:
  "skill_confidence d =
     min (min (2 / 10 * real (sd_count d)) 1
          + (if \<exists>ctx \<in> set (sd_contexts d).
                  \<exists>keyword \<in> set [''skills'', ''technologies'', ''tools'', ''expertise''].
                    contains (lower ctx) keyword
             then 3 / 10 else 0)) 1"
  unfolding skill_confidence_def section_boost_def section_keywords_boost_def Let_def
    list_ex_iff
  by (simp add: mult.commute)

text \<open>
  Claim C7. For every entry of the extracted skill mapping: its count is the number of
  mentions of the skill, it stores at most three contexts, its confidence is
  min(0.2 * count, 1.0) plus 0.3 if at least one stored context contains one of "skills",
  "technologies", "tools", "expertise", capped at 1.0, hence between 0 and 1; and the
  mapping is in descending order of (confidence, count).
\<close>

theorem skill_confidence_and_order:
  assumes "(skill, d) \<in> set (skill_details (extract_skills syn skill_patterns t))"
  shows "sd_count d = mention_count syn skill_patterns t skill
    \<and> length (sd_contexts d) \<le> 3
    \<and> sd_confidence d =
        min (min (2 / 10 * real (sd_count d)) 1
             + (if \<exists>ctx \<in> set (sd_contexts d).
                     \<exists>keyword \<in> set [''skills'', ''technologies'', ''tools'', ''expertise''].
                       contains (lower ctx) keyword
                then 3 / 10 else 0)) 1
    \<and> 0 \<le> sd_confidence d \<and> sd_confidence d \<le> 1
    \<and> sorted_wrt
         (\<lambda>a b. (sd_confidence (snd b), sd_count (snd b))
                  \<le> (sd_confidence (snd a), sd_count (snd a)))
         (skill_details (extract_skills syn skill_patterns t))"
proof -
  define found where "found = fold (record_matches syn t) skill_patterns []"
  from skill_details_member[OF assms]
  obtain d0 where d0: "(skill, d0) \<in> set found"
    "d = d0\<lparr>sd_confidence := skill_confidence d0\<rparr>"
    unfolding found_def by blast
  note f = fold_record_matches[OF well_formed_Nil, of syn t skill_patterns skill]
  have wf: "well_formed found" using f unfolding found_def by blast
  have "count_of found skill = mention_count syn skill_patterns t skill"
    using f unfolding found_def count_of_def by simp
  then have c: "sd_count d = mention_count syn skill_patterns t skill"
    using count_of_member[OF wf d0(1)] d0(2) by simp
  have l: "length (sd_contexts d) \<le> 3"
    using wf d0 unfolding well_formed_def by auto
  have "skill_confidence d = skill_confidence d0"
    unfolding d0(2) skill_confidence_def section_boost_def by simp
  then have e: "sd_confidence d = skill_confidence d" unfolding d0(2) by simp
  have s: "sorted_wrt
         (\<lambda>a b. (sd_confidence (snd b), sd_count (snd b))
                  \<le> (sd_confidence (snd a), sd_count (snd a)))
         (skill_details (extract_skills syn skill_patterns t))"
    unfolding skill_details_eq
    using sorted_reverse_descending[of "\<lambda>(skill, d). (sd_confidence d, sd_count d)"]
    by (simp add: case_prod_beta)
  show ?thesis
    using c l s skill_confidence_range[of d] skill_confidence_formula[of d]
    unfolding e by simp
qed

lemma sample_extraction:
  "skill_details (extract_skills SKILL_SYNONYMS sample_patterns
      ''Skills: JS, Git and node.js. More git.'') =
    [(''node.js'',
      \<lparr>sd_count = 2,
       sd_contexts = [''Skills: JS, Git and node.js. More git.'',
                      ''Skills: JS, Git and node.js. More git.''],
       sd_confidence = 7 / 10\<rparr>),
     (''git'',
      \<lparr>sd_count = 2,
       sd_contexts = [''Skills: JS, Git and node.js. More git.'',
                      ''Skills: JS, Git and node.js. More git.''],
       sd_confidence = 7 / 10\<rparr>),
     (''javascript'',
      \<lparr>sd_count = 2,
       sd_contexts = [''Skills: JS, Git and node.js. More git.'',
                      ''Skills: JS, Git and node.js. More git.''],
       sd_confidence = 7 / 10\<rparr>)]"
  by code_simp

theorem skill_confidence_and_order_witness:
  "(''git'',
      \<lparr>sd_count = 2,
       sd_contexts = [''Skills: JS, Git and node.js. More git.'',
                      ''Skills: JS, Git and node.js. More git.''],
       sd_confidence = 7 / 10\<rparr>)
     \<in> set (skill_details (extract_skills SKILL_SYNONYMS sample_patterns
          ''Skills: JS, Git and node.js. More git.''))
   \<and> mention_count SKILL_SYNONYMS sample_patterns
        ''Skills: JS, Git and node.js. More git.'' ''git'' = 2
   \<and> sorted_wrt
         (\<lambda>a b. (sd_confidence (snd b), sd_count (snd b))
                  \<le> (sd_confidence (snd a), sd_count (snd a)))
         (skill_details (extract_skills SKILL_SYNONYMS sample_patterns
            ''Skills: JS, Git and node.js. More git.''))"
proof -
  have m: "(''git'',
      \<lparr>sd_count = 2,
       sd_contexts = [''Skills: JS, Git and node.js. More git.'',
                      ''Skills: JS, Git and node.js. More git.''],
       sd_confidence = 7 / 10\<rparr>)
     \<in> set (skill_details (extract_skills SKILL_SYNONYMS sample_patterns
          ''Skills: JS, Git and node.js. More git.''))"
    unfolding sample_extraction by simp
  from skill_confidence_and_order[OF m] m show ?thesis by simp
qed

lemma set_build_skill_patterns:
  "set (build_skill_patterns all_skills) = (\<lambda>skill. (skill, skill_pattern skill)) ` set all_skills"
  unfolding build_skill_patterns_def by (simp add: set_sorted_reverse)

lemma matched_skill_is_extracted:
  assumes "skill \<in> set all_skills"
    and "finditer (skill_pattern skill) (lower t) \<noteq> []"
  shows "normalize_skill syn skill
     \<in> set (skill_list (extract_skills syn (build_skill_patterns all_skills) t))"
proof -
  have "(skill, skill_pattern skill) \<in> set (build_skill_patterns all_skills)"
    unfolding set_build_skill_patterns using assms(1) by simp
  then have "normalize_skill syn skill
      \<in> {normalize_skill syn (fst sp) | sp.
           sp \<in> set (build_skill_patterns all_skills) \<and> finditer (snd sp) (lower t) \<noteq> []}"
    using assms(2) by force
  then show ?thesis
    unfolding skill_list_eq
    using fold_record_matches[OF well_formed_Nil, of syn t "build_skill_patterns all_skills"]
    by simp
qed

lemma synonym_match_symmetric:
  assumes "map_of syn canonical = Some variants" "variant \<in> set (map lower variants)"
  shows "canonical \<in> match_with_synonyms syn {canonical} {variant}
     \<and> variant \<in> match_with_synonyms syn {variant} {canonical}"
  using assms
  unfolding match_with_synonyms_def has_extracted_synonym_def is_synonym_of_extracted_def
  by auto

lemma js_in_database: "''js'' \<in> build_skill_database roles SKILL_SYNONYMS"
proof -
  have "(''javascript'', [''js'', ''javascript programming'', ''ecmascript''])
      \<in> set SKILL_SYNONYMS"
    unfolding SKILL_SYNONYMS_def by simp
  moreover have "lower ''js'' = ''js''" by code_simp
  ultimately show ?thesis unfolding build_skill_database_def by force
qed

lemma javascript_in_database: "''javascript'' \<in> build_skill_database roles SKILL_SYNONYMS"
proof -
  have "(''javascript'', [''js'', ''javascript programming'', ''ecmascript''])
      \<in> set SKILL_SYNONYMS"
    unfolding SKILL_SYNONYMS_def by simp
  moreover have "lower ''javascript'' = ''javascript''" by code_simp
  ultimately show ?thesis unfolding build_skill_database_def by force
qed

lemma js_matches: "finditer (skill_pattern ''js'') (lower ''js'') = [(0, 2, None)]"
  by code_simp

lemma javascript_matches:
  "finditer (skill_pattern ''javascript'') (lower ''javascript'') = [(0, 10, None)]"
  by code_simp

lemma normalize_js: "normalize_skill SKILL_SYNONYMS ''js'' = ''javascript''"
  by code_simp

lemma normalize_javascript: "normalize_skill SKILL_SYNONYMS ''javascript'' = ''javascript''"
  by code_simp

lemma lower_javascript: "lower ''javascript'' = ''javascript''"
  by code_simp

lemma javascript_synonyms:
  "map_of SKILL_SYNONYMS ''javascript''
     = Some [''js'', ''javascript programming'', ''ecmascript'']"
  by code_simp

lemma js_variant:
  "''js'' \<in> set (map lower [''js'', ''javascript programming'', ''ecmascript''])"
  by code_simp

text \<open>
  Claim C6. With the synonym table of the repository, which lists "js" as a variant of
  "javascript", and the skill patterns built from any catalog and that table: the skills
  extracted from the resume "js" satisfy the role requirement "javascript", and the skills
  extracted from the resume "javascript" satisfy the role requirement "js".
\<close>

theorem js_javascript_symmetric:
  assumes "set all_skills = build_skill_database roles SKILL_SYNONYMS"
  shows "match_with_synonyms SKILL_SYNONYMS {''javascript''}
       (set (map lower (skill_list
          (extract_skills SKILL_SYNONYMS (build_skill_patterns all_skills) ''js''))))
     = {''javascript''}
   \<and> match_with_synonyms SKILL_SYNONYMS {''js''}
       (set (map lower (skill_list
          (extract_skills SKILL_SYNONYMS (build_skill_patterns all_skills) ''javascript''))))
     = {''js''}"
proof -
  define from_js where "from_js = set (map lower (skill_list
          (extract_skills SKILL_SYNONYMS (build_skill_patterns all_skills) ''js'')))"
  define from_javascript where "from_javascript = set (map lower (skill_list
          (extract_skills SKILL_SYNONYMS (build_skill_patterns all_skills) ''javascript'')))"
  have "''js'' \<in> set all_skills" unfolding assms by (rule js_in_database)
  then have "normalize_skill SKILL_SYNONYMS ''js''
     \<in> set (skill_list (extract_skills SKILL_SYNONYMS (build_skill_patterns all_skills) ''js''))"
    by (rule matched_skill_is_extracted) (simp add: js_matches)
  then have "lower ''javascript'' \<in> from_js"
    unfolding from_js_def normalize_js by simp
  then have a: "''javascript'' \<in> from_js" unfolding lower_javascript .
  have "''javascript'' \<in> set all_skills" unfolding assms by (rule javascript_in_database)
  then have "normalize_skill SKILL_SYNONYMS ''javascript''
     \<in> set (skill_list
          (extract_skills SKILL_SYNONYMS (build_skill_patterns all_skills) ''javascript''))"
    by (rule matched_skill_is_extracted) (simp add: javascript_matches)
  then have "lower ''javascript'' \<in> from_javascript"
    unfolding from_javascript_def normalize_javascript by simp
  then have b: "''javascript'' \<in> from_javascript" unfolding lower_javascript .
  have m1: "match_with_synonyms SKILL_SYNONYMS {''javascript''} from_js = {''javascript''}"
    using a unfolding match_with_synonyms_def by auto
  have "is_synonym_of_extracted SKILL_SYNONYMS ''js'' from_javascript"
    unfolding is_synonym_of_extracted_def using b javascript_synonyms js_variant
    by force
  then have m2: "match_with_synonyms SKILL_SYNONYMS {''js''} from_javascript = {''js''}"
    unfolding match_with_synonyms_def by auto
  show ?thesis using m1 m2 unfolding from_js_def from_javascript_def by simp
qed

lemma set_skill_database_list:
  "set (skill_database_list roles syn) = build_skill_database roles syn"
  unfolding skill_database_list_def build_skill_database_def by auto

theorem js_javascript_symmetric_witness:
  "set (skill_database_list sample_roles SKILL_SYNONYMS)
     = build_skill_database sample_roles SKILL_SYNONYMS
   \<and> match_with_synonyms SKILL_SYNONYMS {''javascript''}
       (set (map lower (skill_list
          (extract_skills SKILL_SYNONYMS
             (build_skill_patterns (skill_database_list sample_roles SKILL_SYNONYMS)) ''js''))))
     = {''javascript''}
   \<and> match_with_synonyms SKILL_SYNONYMS {''js''}
       (set (map lower (skill_list
          (extract_skills SKILL_SYNONYMS
             (build_skill_patterns (skill_database_list sample_roles SKILL_SYNONYMS))
             ''javascript''))))
     = {''js''}"
  using js_javascript_symmetric[OF set_skill_database_list, of sample_roles]
    set_skill_database_list[of sample_roles SKILL_SYNONYMS]
  by blast

text \<open>
  Claim C9. The report is not determined by the resume alone: \<^verbatim>\<open>_build_skill_patterns\<close> sorts
  the set \<^verbatim>\<open>all_skills\<close> by length only, so the order of skills of equal length is the order
  in which Python iterates the set, which changes with the hash seed of the process. For
  the resume "git sql" the two orders of the skills "git" and "sql" give two different
  skill lists.
\<close>

theorem skill_list_depends_on_set_order:
  "set [''git'', ''sql''] = set [''sql'', ''git'']
   \<and> skill_list (extract_skills SKILL_SYNONYMS (build_skill_patterns [''git'', ''sql''])
        ''git sql'') = [''git'', ''sql'']
   \<and> skill_list (extract_skills SKILL_SYNONYMS (build_skill_patterns [''sql'', ''git''])
        ''git sql'') = [''sql'', ''git'']
   \<and> skill_list (extract_skills SKILL_SYNONYMS (build_skill_patterns [''git'', ''sql''])
        ''git sql'')
     \<noteq> skill_list (extract_skills SKILL_SYNONYMS (build_skill_patterns [''sql'', ''git''])
        ''git sql'')"
proof -
  have a: "skill_list (extract_skills SKILL_SYNONYMS (build_skill_patterns [''git'', ''sql''])
        ''git sql'') = [''git'', ''sql'']"
    by code_simp
  have b: "skill_list (extract_skills SKILL_SYNONYMS (build_skill_patterns [''sql'', ''git''])
        ''git sql'') = [''sql'', ''git'']"
    by code_simp
  have c: "set [''git'', ''sql''] = set [''sql'', ''git'']" by auto
  show ?thesis unfolding a b using c by simp
qed

end
